theory Spec2Isabelle
  imports Main
begin

section \<open>Python strings and values\<close>

text \<open>
  A Python \<open>str\<close> is the list of its code points, integers from 0 to 0x10FFFF. \<open>lit\<close>
  writes the string of an ASCII literal and \<open>cp\<close> the code point of an ASCII character.
\<close>

type_synonym str = "int list"

abbreviation cp :: "char \<Rightarrow> int" where
  "cp c \<equiv> of_char c"

definition lit :: "string \<Rightarrow> str" where
  "lit s = map cp s"

text \<open>
  A parsed JSON document, which is also what an attribute of an \<open>OAuthUser\<close> object
  holds: the adapters copy payload values into the attributes as they are. \<open>JNull\<close> is
  Python's \<open>None\<close>. \<open>JObj\<close> lists the items of a dict (its keys are distinct). Numbers
  are the integers; a payload with a fraction is outside this model.
\<close>

datatype json = JNull | JBool bool | JNum int | JStr str | JArr "json list" | JObj "(str \<times> json) list"

datatype exn =
    OAuthAccessTokenException str
  | JSONDecodeError
  | KeyError
  | TypeError
  | AttributeError
  | IndexError
  | ValueError
  | RequestException
  | DoesNotExist
  | MultipleObjectsReturned
  | IntegrityError
  | NoReverseMatch
  | DisallowedRedirect

definition and_then :: "exn + 'a \<Rightarrow> ('a \<Rightarrow> exn + 'b) \<Rightarrow> exn + 'b" where
  "and_then m f = (case m of Inl e \<Rightarrow> Inl e | Inr x \<Rightarrow> f x)"

fun py_truthy :: "json \<Rightarrow> bool" where
  "py_truthy JNull = False"
| "py_truthy (JBool b) = b"
| "py_truthy (JNum n) = (n \<noteq> 0)"
| "py_truthy (JStr s) = (s \<noteq> [])"
| "py_truthy (JArr xs) = (xs \<noteq> [])"
| "py_truthy (JObj kvs) = (kvs \<noteq> [])"

primrec is_substring :: "str \<Rightarrow> str \<Rightarrow> bool" where
  "is_substring k [] = (k = [])"
| "is_substring k (c # cs) = (take (length k) (c # cs) = k \<or> is_substring k cs)"

text \<open>\<open>key in v\<close> and \<open>v[key]\<close> for a string key.\<close>

fun py_in :: "str \<Rightarrow> json \<Rightarrow> exn + bool" where
  "py_in k (JObj kvs) = Inr (k \<in> set (map fst kvs))"
| "py_in k (JArr xs) = Inr (JStr k \<in> set xs)"
| "py_in k (JStr s) = Inr (is_substring k s)"
| "py_in k JNull = Inl TypeError"
| "py_in k (JBool b) = Inl TypeError"
| "py_in k (JNum n) = Inl TypeError"

fun py_getitem :: "json \<Rightarrow> str \<Rightarrow> exn + json" where
  "py_getitem (JObj kvs) k = (case map_of kvs k of None \<Rightarrow> Inl KeyError | Some v \<Rightarrow> Inr v)"
| "py_getitem (JArr xs) k = Inl TypeError"
| "py_getitem (JStr s) k = Inl TypeError"
| "py_getitem JNull k = Inl TypeError"
| "py_getitem (JBool b) k = Inl TypeError"
| "py_getitem (JNum n) k = Inl TypeError"

section \<open>What the code takes from outside the repository's source files\<close>

text \<open>
  Settings, the helpers of \<open>djangoblog.utils\<close>, and what the standard library computes
  from tables that are not code: every definition below takes them as the parameter
  \<open>env\<close>.
  \<^item> \<open>json_loads\<close> gives \<open>None\<close> when \<open>json.loads\<close> raises; \<open>parse_qs\<close> gives the items of
    the dict it returns; \<open>container_str\<close> is \<open>str\<close> on a list or a dict.
  \<^item> \<open>ToUpperFull\<close> is the upper-case mapping of the Unicode database for a character
    that is not ASCII (one to three characters: \<open>U+FB00\<close> gives \<open>FF\<close>);
    \<open>unicode_lower\<close> is \<open>str.lower\<close> on a string that is not ASCII (there the
    mapping of a capital sigma depends on its neighbours); \<open>NFKC\<close> is
    \<open>unicodedata.normalize('NFKC', _)\<close>.
  \<^item> \<open>check_bracketed_host\<close> tells whether \<open>urllib.parse\<close> accepts the text between
    square brackets in a network location (an IPv6 or IPvFuture address).
\<close>

record env =
  SECRET_KEY :: str
  DEBUG :: bool
  site_domain :: str
  get_sha256 :: "str \<Rightarrow> str"
  json_loads :: "str \<Rightarrow> json option"
  parse_qs :: "str \<Rightarrow> (str \<times> str list) list"
  container_str :: "json \<Rightarrow> str"
  ToUpperFull :: "int \<Rightarrow> str"
  unicode_lower :: "str \<Rightarrow> str"
  NFKC :: "str \<Rightarrow> str"
  check_bracketed_host :: "str \<Rightarrow> bool"

section \<open>String methods\<close>

text \<open>
  \<open>str.upper\<close> maps the string character by character: an ASCII letter to its capital,
  any other ASCII character to itself, a character outside ASCII to what the Unicode
  database gives. \<open>str.lower\<close> on an ASCII string maps the capitals to small letters.
  \<open>str.isascii\<close> holds of the empty string.
\<close>

definition is_ascii_char :: "int \<Rightarrow> bool" where
  "is_ascii_char c = (0 \<le> c \<and> c < 128)"

definition isascii :: "str \<Rightarrow> bool" where
  "isascii s = list_all is_ascii_char s"

definition upper_char :: "env \<Rightarrow> int \<Rightarrow> str" where
  "upper_char e c =
     (if 97 \<le> c \<and> c \<le> 122 then [c - 32] else if is_ascii_char c then [c] else ToUpperFull e c)"

definition str_upper :: "env \<Rightarrow> str \<Rightarrow> str" where
  "str_upper e s = concat (map (upper_char e) s)"

definition ascii_lower :: "int \<Rightarrow> int" where
  "ascii_lower c = (if 65 \<le> c \<and> c \<le> 90 then c + 32 else c)"

definition str_lower :: "env \<Rightarrow> str \<Rightarrow> str" where
  "str_lower e s = (if isascii s then map ascii_lower s else unicode_lower e s)"

text \<open>
  \<open>str.strip()\<close> removes the characters for which \<open>str.isspace\<close> holds from both ends:
  the ASCII blanks and the Unicode spaces and line separators.
\<close>

definition is_space :: "int \<Rightarrow> bool" where
  "is_space c =
     ((9 \<le> c \<and> c \<le> 13) \<or> (28 \<le> c \<and> c \<le> 32) \<or> c = 0x85 \<or> c = 0xA0 \<or> c = 0x1680
      \<or> (0x2000 \<le> c \<and> c \<le> 0x200A) \<or> c = 0x2028 \<or> c = 0x2029 \<or> c = 0x202F \<or> c = 0x205F
      \<or> c = 0x3000)"

definition str_strip :: "str \<Rightarrow> str" where
  "str_strip s = rev (dropWhile is_space (rev (dropWhile is_space s)))"

text \<open>
  \<open>s.replace(old, new)\<close>: every non-overlapping occurrence of \<open>old\<close>, scanning from the
  left, is replaced. With an empty \<open>old\<close> Python puts \<open>new\<close> before every character and at
  the end.
\<close>

function str_replace :: "str \<Rightarrow> str \<Rightarrow> str \<Rightarrow> str" where
  "str_replace old new s =
     (if old = [] then new @ concat (map (\<lambda>c. c # new) s)
      else if s = [] then []
      else if take (length old) s = old then new @ str_replace old new (drop (length old) s)
      else hd s # str_replace old new (tl s))"
  by pat_completeness auto
termination
  by (relation "measure (\<lambda>(old, new, s). length s)") (auto simp: neq_Nil_conv)

declare str_replace.simps [simp del]

text \<open>\<open>str\<close> of a non-negative integer, and of a JSON value.\<close>

definition digit_char :: "nat \<Rightarrow> int" where
  "digit_char d = 48 + int d"

function str_of_nat :: "nat \<Rightarrow> str" where
  "str_of_nat n = (if n < 10 then [digit_char n] else str_of_nat (n div 10) @ [digit_char (n mod 10)])"
  by pat_completeness auto
termination
  by (relation "measure id") auto

declare str_of_nat.simps [simp del]

definition py_str :: "env \<Rightarrow> json \<Rightarrow> str" where
  "py_str e v =
     (case v of
        JStr s \<Rightarrow> s
      | JNum n \<Rightarrow> (if n < 0 then lit ''-'' @ str_of_nat (nat (- n)) else str_of_nat (nat n))
      | JBool b \<Rightarrow> (if b then lit ''True'' else lit ''False'')
      | JNull \<Rightarrow> lit ''None''
      | _ \<Rightarrow> container_str e v)"

text \<open>
  \<open>urllib.parse.quote\<close>: letters, digits, \<open>_.-~\<close> and the characters of \<open>safe\<close> stay, every
  other character is written as \<open>%XX\<close> for each byte of its UTF-8 encoding. (The strings
  quoted here come from the query string, the database and the settings, which hold no
  surrogate code point, so the encoding does not fail.) \<open>quote_plus\<close> writes a space as
  \<open>+\<close>; \<open>urlencode\<close> quotes keys and values with it.
\<close>

definition utf8 :: "int \<Rightarrow> int list" where
  "utf8 c =
     (if c < 0x80 then [c]
      else if c < 0x800 then [0xC0 + c div 64, 0x80 + c mod 64]
      else if c < 0x10000 then [0xE0 + c div 4096, 0x80 + (c div 64) mod 64, 0x80 + c mod 64]
      else [0xF0 + c div 262144, 0x80 + (c div 4096) mod 64, 0x80 + (c div 64) mod 64, 0x80 + c mod 64])"

definition hex_digit :: "int \<Rightarrow> int" where
  "hex_digit d = (if d < 10 then 48 + d else 55 + d)"

definition percent :: "int \<Rightarrow> str" where
  "percent b = [cp CHR ''%'', hex_digit (b div 16), hex_digit (b mod 16)]"

definition always_safe :: "int \<Rightarrow> bool" where
  "always_safe c =
     ((97 \<le> c \<and> c \<le> 122) \<or> (65 \<le> c \<and> c \<le> 90) \<or> (48 \<le> c \<and> c \<le> 57)
      \<or> c = cp CHR ''_'' \<or> c = cp CHR ''.'' \<or> c = cp CHR ''-'' \<or> c = cp CHR ''~'')"

definition quote_char :: "str \<Rightarrow> int \<Rightarrow> str" where
  "quote_char safe c =
     (if always_safe c \<or> (is_ascii_char c \<and> c \<in> set safe) then [c] else concat (map percent (utf8 c)))"

definition quote :: "str \<Rightarrow> str \<Rightarrow> str" where
  "quote safe s = concat (map (quote_char safe) s)"

definition quote_plus :: "str \<Rightarrow> str" where
  "quote_plus s = concat (map (\<lambda>c. if c = cp CHR '' '' then lit ''+'' else quote_char [] c) s)"

fun join_amp :: "str list \<Rightarrow> str" where
  "join_amp [] = []"
| "join_amp [x] = x"
| "join_amp (x # y # ys) = x @ lit ''&'' @ join_amp (y # ys)"

definition urlencode :: "(str \<times> str) list \<Rightarrow> str" where
  "urlencode params = join_amp (map (\<lambda>(k, v). quote_plus k @ lit ''='' @ quote_plus v) params)"

section \<open>\<open>urllib.parse.urlsplit\<close> and the redirect target (\<open>get_redirecturl\<close>, oauth/views.py)\<close>

text \<open>
  \<open>urlsplit\<close> follows the standard library's function of that name as far as the scheme
  and the network location, the two components the code reads (\<open>urlparse\<close> returns the
  same two). Leading C0 controls and spaces are stripped; tab, CR and LF are removed; a
  leading run of scheme characters that starts with an ASCII letter and ends at the
  first colon is the scheme, in lower case; after \<open>//\<close> the network location runs to the
  first of \<open>/\<close>, \<open>?\<close>, \<open>#\<close>. The result \<open>None\<close> is \<open>ValueError\<close>: square brackets that are
  unbalanced or do not hold an IP address, or a network location outside ASCII whose
  NFKC form brings in one of \<open>/?#@:\<close>.
\<close>

definition is_scheme_char :: "int \<Rightarrow> bool" where
  "is_scheme_char c =
     ((97 \<le> c \<and> c \<le> 122) \<or> (65 \<le> c \<and> c \<le> 90) \<or> (48 \<le> c \<and> c \<le> 57)
      \<or> c = cp CHR ''+'' \<or> c = cp CHR ''-'' \<or> c = cp CHR ''.'')"

definition is_ascii_alpha :: "int \<Rightarrow> bool" where
  "is_ascii_alpha c = ((97 \<le> c \<and> c \<le> 122) \<or> (65 \<le> c \<and> c \<le> 90))"

definition bracketed_host :: "str \<Rightarrow> str" where
  "bracketed_host netloc =
     takeWhile (\<lambda>c. c \<noteq> cp CHR '']'') (drop 1 (dropWhile (\<lambda>c. c \<noteq> cp CHR ''['') netloc))"

definition checknetloc :: "env \<Rightarrow> str \<Rightarrow> bool" where
  "checknetloc e netloc =
     (netloc = [] \<or> isascii netloc
      \<or> (let n = filter (\<lambda>c. c \<notin> set (lit ''@:#?'')) netloc
         in n = NFKC e n \<or> list_all (\<lambda>c. c \<notin> set (NFKC e n)) (lit ''/?#@:'')))"

definition urlsplit :: "env \<Rightarrow> str \<Rightarrow> (str \<times> str) option" where
  "urlsplit e url0 =
     (let url1 = dropWhile (\<lambda>c. 0 \<le> c \<and> c \<le> 32) url0;
          url2 = filter (\<lambda>c. c \<noteq> 0x09 \<and> c \<noteq> 0x0D \<and> c \<noteq> 0x0A) url1;
          pre = takeWhile (\<lambda>c. c \<noteq> cp CHR '':'') url2;
          has_scheme = (length pre < length url2 \<and> pre \<noteq> [] \<and> is_ascii_alpha (hd url2)
                        \<and> list_all is_scheme_char pre);
          scheme = (if has_scheme then map ascii_lower pre else []);
          url3 = (if has_scheme then drop (Suc (length pre)) url2 else url2)
      in if take 2 url3 = lit ''//''
         then (let netloc = takeWhile (\<lambda>c. c \<noteq> cp CHR ''/'' \<and> c \<noteq> cp CHR ''?'' \<and> c \<noteq> cp CHR ''#'') (drop 2 url3)
               in if (cp CHR ''['' \<in> set netloc) \<noteq> (cp CHR '']'' \<in> set netloc) then None
                  else if cp CHR ''['' \<in> set netloc \<and> \<not> check_bracketed_host e (bracketed_host netloc) then None
                  else if \<not> checknetloc e netloc then None
                  else Some (scheme, netloc))
         else Some (scheme, []))"

text \<open>
  \<open>get_redirecturl\<close>: \<open>split\<close> is the parser, \<open>site\<close> is \<open>get_current_site().domain\<close> and
  \<open>next_url\<close> is \<open>request.GET.get('next_url', None)\<close>. The result \<open>None\<close> is the parser's
  exception leaving the view.
\<close>

definition get_redirecturl :: "(str \<Rightarrow> (str \<times> str) option) \<Rightarrow> str \<Rightarrow> str option \<Rightarrow> str option" where
  "get_redirecturl split site next_url =
     (case next_url of
        None \<Rightarrow> Some (lit ''/'')
      | Some nexturl \<Rightarrow>
          if nexturl = [] \<or> nexturl = lit ''/login/'' \<or> nexturl = lit ''/login'' then Some (lit ''/'')
          else (case split nexturl of
                  None \<Rightarrow> None
                | Some (scheme, netloc) \<Rightarrow>
                    if netloc \<noteq> [] \<and> str_replace (lit ''www.'') [] netloc \<noteq> str_replace (lit ''www.'') [] site
                    then Some (lit ''/'')
                    else Some nexturl))"

section \<open>The stored records (oauth/models.py, accounts/models.py)\<close>

text \<open>
  \<open>pk\<close> is the model's \<open>id\<close> (\<open>None\<close> before the first save). The two timestamp columns
  are left out: nothing in the views reads or writes them.
\<close>

record OAuthUser =
  pk :: "nat option"
  author_id :: "nat option"
  openid :: json
  nickname :: json
  token :: json
  picture :: json
  type :: str
  email :: json
  metadata :: json

text \<open>\<open>OAuthUser()\<close>: a \<open>CharField\<close> that is not nullable starts as the empty string.\<close>

definition new_OAuthUser :: OAuthUser where
  "new_OAuthUser = \<lparr>pk = None, author_id = None, openid = JStr [], nickname = JStr [],
     token = JNull, picture = JNull, type = [], email = JNull, metadata = JNull\<rparr>"

record BlogUser =
  username :: str
  user_email :: str
  source :: str

record OAuthConfig =
  config_type :: str
  appkey :: str
  appsecret :: str
  config_callback_url :: str
  is_enable :: bool

section \<open>Provider adapters (oauth/oauthmanager.py)\<close>

datatype provider = WBOauthManager | GoogleOauthManager | GitHubOauthManager | FaceBookOauthManager | QQOauthManager

fun ICON_NAME :: "provider \<Rightarrow> str" where
  "ICON_NAME WBOauthManager = lit ''weibo''"
| "ICON_NAME GoogleOauthManager = lit ''google''"
| "ICON_NAME GitHubOauthManager = lit ''github''"
| "ICON_NAME FaceBookOauthManager = lit ''facebook''"
| "ICON_NAME QQOauthManager = lit ''qq''"

fun AUTH_URL :: "provider \<Rightarrow> str" where
  "AUTH_URL WBOauthManager = lit ''https://api.weibo.com/oauth2/authorize''"
| "AUTH_URL GoogleOauthManager = lit ''https://accounts.google.com/o/oauth2/v2/auth''"
| "AUTH_URL GitHubOauthManager = lit ''https://github.com/login/oauth/authorize''"
| "AUTH_URL FaceBookOauthManager = lit ''https://www.facebook.com/v16.0/dialog/oauth''"
| "AUTH_URL QQOauthManager = lit ''https://graph.qq.com/oauth2.0/authorize''"

text \<open>
  An adapter instance: its class, the three values read from its \<open>OAuthConfig\<close> row, and
  the two attributes \<open>access_token\<close> and \<open>openid\<close>. An attribute is \<open>Bound\<close> to a string or
  to \<open>None\<close>, or the instance does not have it (\<open>Missing\<close>) and reading it raises
  \<open>AttributeError\<close>. The two properties of \<open>BaseOauthManager\<close> read the attributes from
  left to right.
\<close>

datatype attr = Missing | Bound "str option"

record manager =
  kind :: provider
  client_id :: str
  client_secret :: str
  callback_url :: str
  access_token :: attr
  manager_openid :: attr

definition getattr :: "attr \<Rightarrow> exn + str option" where
  "getattr a = (case a of Missing \<Rightarrow> Inl AttributeError | Bound v \<Rightarrow> Inr v)"

definition is_access_token_set :: "manager \<Rightarrow> exn + bool" where
  "is_access_token_set m = and_then (getattr (access_token m)) (\<lambda>t. Inr (t \<noteq> None))"

definition is_authorized :: "manager \<Rightarrow> exn + bool" where
  "is_authorized m =
     and_then (is_access_token_set m) (\<lambda>s.
       if \<not> s then Inr False
       else and_then (getattr (access_token m)) (\<lambda>t.
         if t = None then Inr False
         else and_then (getattr (manager_openid m)) (\<lambda>oid. Inr (oid \<noteq> None))))"

text \<open>
  The network: \<open>do_get\<close> and \<open>do_post\<close> return the body of the provider's answer or
  raise. The answers an adapter receives are an input, consumed one per call in the
  order of the calls; \<open>None\<close> (and a call after the last answer) is a transport error.
  What is sent (the code, the client secret) does not appear: the answers are given.
\<close>

type_synonym http = "str option list"

fun do_request :: "http \<Rightarrow> (exn + str) \<times> http" where
  "do_request [] = (Inl RequestException, [])"
| "do_request (None # rest) = (Inl RequestException, rest)"
| "do_request (Some body # rest) = (Inr body, rest)"

definition opt_json :: "str option \<Rightarrow> json" where
  "opt_json t = (case t of None \<Rightarrow> JNull | Some s \<Rightarrow> JStr s)"

definition loads :: "env \<Rightarrow> str \<Rightarrow> exn + json" where
  "loads e s = (case json_loads e s of None \<Rightarrow> Inl JSONDecodeError | Some v \<Rightarrow> Inr v)"

fun get_authorization_url :: "env \<Rightarrow> manager \<Rightarrow> str \<Rightarrow> str" where
  "get_authorization_url e m nexturl =
     (case kind m of
        WBOauthManager \<Rightarrow>
          AUTH_URL WBOauthManager @ lit ''?'' @ urlencode
            [(lit ''client_id'', client_id m), (lit ''response_type'', lit ''code''),
             (lit ''redirect_uri'', callback_url m @ lit ''&next_url='' @ nexturl)]
      | GoogleOauthManager \<Rightarrow>
          AUTH_URL GoogleOauthManager @ lit ''?'' @ urlencode
            [(lit ''client_id'', client_id m), (lit ''response_type'', lit ''code''),
             (lit ''redirect_uri'', callback_url m), (lit ''scope'', lit ''openid email'')]
      | GitHubOauthManager \<Rightarrow>
          AUTH_URL GitHubOauthManager @ lit ''?'' @ urlencode
            [(lit ''client_id'', client_id m), (lit ''response_type'', lit ''code''),
             (lit ''redirect_uri'', callback_url m @ lit ''&next_url='' @ nexturl), (lit ''scope'', lit ''user'')]
      | FaceBookOauthManager \<Rightarrow>
          AUTH_URL FaceBookOauthManager @ lit ''?'' @ urlencode
            [(lit ''client_id'', client_id m), (lit ''response_type'', lit ''code''),
             (lit ''redirect_uri'', callback_url m), (lit ''scope'', lit ''email,public_profile'')]
      | QQOauthManager \<Rightarrow>
          AUTH_URL QQOauthManager @ lit ''?'' @ urlencode
            [(lit ''response_type'', lit ''code''), (lit ''client_id'', client_id m),
             (lit ''redirect_uri'', callback_url m @ lit ''&next_url='' @ nexturl)])"

text \<open>
  What \<open>get_access_token_by_code\<close> returns differs by class: the fetched user (Weibo),
  the token string (Google, GitHub, Facebook), the list \<open>parse_qs\<close> holds for the token
  (QQ), or \<open>None\<close>. The view only tests the value's truth.
\<close>

datatype rsp_val = RUser OAuthUser | RStr str | RList "str list" | RNone

fun rsp_truthy :: "rsp_val \<Rightarrow> bool" where
  "rsp_truthy (RUser u) = True"
| "rsp_truthy (RStr s) = (s \<noteq> [])"
| "rsp_truthy (RList xs) = (xs \<noteq> [])"
| "rsp_truthy RNone = False"

subsection \<open>Weibo\<close>

text \<open>
  The body of the \<open>try\<close> block of \<open>get_oauth_userinfo\<close>, after the request; \<open>tok\<close> is the
  value of \<open>self.access_token\<close>.
\<close>

definition WB_user :: "env \<Rightarrow> str option \<Rightarrow> str \<Rightarrow> exn + OAuthUser" where
  "WB_user e tok rsp =
     and_then (loads e rsp) (\<lambda>datas.
     and_then (py_getitem datas (lit ''avatar_large'')) (\<lambda>pic.
     and_then (py_getitem datas (lit ''screen_name'')) (\<lambda>nick.
     and_then (py_getitem datas (lit ''id'')) (\<lambda>oid.
     and_then (py_in (lit ''email'') datas) (\<lambda>has.
     and_then (if has then py_getitem datas (lit ''email'') else Inr JNull) (\<lambda>em.
       Inr (new_OAuthUser\<lparr>metadata := JStr rsp, picture := pic, nickname := nick, openid := oid,
              type := lit ''weibo'', token := opt_json tok,
              email := (if has \<and> py_truthy em then em else JNull)\<rparr>)))))))"

definition WB_get_oauth_userinfo :: "env \<Rightarrow> manager \<Rightarrow> http \<Rightarrow> (exn + OAuthUser option) \<times> manager \<times> http" where
  "WB_get_oauth_userinfo e m h =
     (case is_authorized m of
        Inl ex \<Rightarrow> (Inl ex, m, h)
      | Inr False \<Rightarrow> (Inr None, m, h)
      | Inr True \<Rightarrow>
          (case getattr (access_token m) of
             Inl ex \<Rightarrow> (Inl ex, m, h)
           | Inr tok \<Rightarrow>
               (case do_request h of
                  (Inl ex, h1) \<Rightarrow> (Inl ex, m, h1)
                | (Inr rsp, h1) \<Rightarrow>
                    (Inr (case WB_user e tok rsp of Inl ex \<Rightarrow> None | Inr u \<Rightarrow> Some u), m, h1))))"

definition WB_get_access_token_by_code :: "env \<Rightarrow> manager \<Rightarrow> http \<Rightarrow> (exn + rsp_val) \<times> manager \<times> http" where
  "WB_get_access_token_by_code e m h =
     (case do_request h of
        (Inl ex, h1) \<Rightarrow> (Inl ex, m, h1)
      | (Inr rsp, h1) \<Rightarrow>
          (case and_then (loads e rsp) (\<lambda>obj. and_then (py_in (lit ''access_token'') obj) (\<lambda>has. Inr (obj, has))) of
             Inl ex \<Rightarrow> (Inl ex, m, h1)
           | Inr (obj, False) \<Rightarrow> (Inl (OAuthAccessTokenException rsp), m, h1)
           | Inr (obj, True) \<Rightarrow>
               (case py_getitem obj (lit ''access_token'') of
                  Inl ex \<Rightarrow> (Inl ex, m, h1)
                | Inr tok \<Rightarrow>
                    (let m1 = m\<lparr>access_token := Bound (Some (py_str e tok))\<rparr> in
                     case py_getitem obj (lit ''uid'') of
                       Inl ex \<Rightarrow> (Inl ex, m1, h1)
                     | Inr uid \<Rightarrow>
                         (let m2 = m1\<lparr>manager_openid := Bound (Some (py_str e uid))\<rparr> in
                          case WB_get_oauth_userinfo e m2 h1 of
                            (Inl ex, m3, h2) \<Rightarrow> (Inl ex, m3, h2)
                          | (Inr None, m3, h2) \<Rightarrow> (Inr RNone, m3, h2)
                          | (Inr (Some u), m3, h2) \<Rightarrow> (Inr (RUser u), m3, h2))))))"

definition WB_get_picture :: "env \<Rightarrow> str \<Rightarrow> exn + json" where
  "WB_get_picture e metadata_text =
     and_then (loads e metadata_text) (\<lambda>datas. py_getitem datas (lit ''avatar_large''))"

subsection \<open>Google\<close>

definition Google_user :: "env \<Rightarrow> str option \<Rightarrow> str \<Rightarrow> exn + OAuthUser" where
  "Google_user e tok rsp =
     and_then (loads e rsp) (\<lambda>datas.
     and_then (py_getitem datas (lit ''picture'')) (\<lambda>pic.
     and_then (py_getitem datas (lit ''name'')) (\<lambda>nick.
     and_then (py_getitem datas (lit ''sub'')) (\<lambda>oid.
     and_then (py_getitem datas (lit ''email'')) (\<lambda>em.
       Inr (new_OAuthUser\<lparr>metadata := JStr rsp, picture := pic, nickname := nick, openid := oid,
              token := opt_json tok, type := lit ''google'',
              email := (if py_truthy em then em else JNull)\<rparr>))))))"

definition Google_get_oauth_userinfo :: "env \<Rightarrow> manager \<Rightarrow> http \<Rightarrow> (exn + OAuthUser option) \<times> manager \<times> http" where
  "Google_get_oauth_userinfo e m h =
     (case is_authorized m of
        Inl ex \<Rightarrow> (Inl ex, m, h)
      | Inr False \<Rightarrow> (Inr None, m, h)
      | Inr True \<Rightarrow>
          (case getattr (access_token m) of
             Inl ex \<Rightarrow> (Inl ex, m, h)
           | Inr tok \<Rightarrow>
               (case do_request h of
                  (Inl ex, h1) \<Rightarrow> (Inl ex, m, h1)
                | (Inr rsp, h1) \<Rightarrow>
                    (Inr (case Google_user e tok rsp of Inl ex \<Rightarrow> None | Inr u \<Rightarrow> Some u), m, h1))))"

definition Google_get_access_token_by_code :: "env \<Rightarrow> manager \<Rightarrow> http \<Rightarrow> (exn + rsp_val) \<times> manager \<times> http" where
  "Google_get_access_token_by_code e m h =
     (case do_request h of
        (Inl ex, h1) \<Rightarrow> (Inl ex, m, h1)
      | (Inr rsp, h1) \<Rightarrow>
          (case and_then (loads e rsp) (\<lambda>obj. and_then (py_in (lit ''access_token'') obj) (\<lambda>has. Inr (obj, has))) of
             Inl ex \<Rightarrow> (Inl ex, m, h1)
           | Inr (obj, False) \<Rightarrow> (Inl (OAuthAccessTokenException rsp), m, h1)
           | Inr (obj, True) \<Rightarrow>
               (case py_getitem obj (lit ''access_token'') of
                  Inl ex \<Rightarrow> (Inl ex, m, h1)
                | Inr tok \<Rightarrow>
                    (let m1 = m\<lparr>access_token := Bound (Some (py_str e tok))\<rparr> in
                     case py_getitem obj (lit ''id_token'') of
                       Inl ex \<Rightarrow> (Inl ex, m1, h1)
                     | Inr idt \<Rightarrow>
                         (Inr (RStr (py_str e tok)), m1\<lparr>manager_openid := Bound (Some (py_str e idt))\<rparr>, h1)))))"

definition Google_get_picture :: "env \<Rightarrow> str \<Rightarrow> exn + json" where
  "Google_get_picture e metadata_text =
     and_then (loads e metadata_text) (\<lambda>datas. py_getitem datas (lit ''picture''))"

subsection \<open>GitHub\<close>

definition GitHub_user :: "env \<Rightarrow> str option \<Rightarrow> str \<Rightarrow> exn + OAuthUser" where
  "GitHub_user e tok rsp =
     and_then (loads e rsp) (\<lambda>datas.
     and_then (py_getitem datas (lit ''avatar_url'')) (\<lambda>pic.
     and_then (py_getitem datas (lit ''name'')) (\<lambda>nick.
     and_then (py_getitem datas (lit ''id'')) (\<lambda>oid.
     and_then (py_in (lit ''email'') datas) (\<lambda>has.
     and_then (if has then py_getitem datas (lit ''email'') else Inr JNull) (\<lambda>em.
       Inr (new_OAuthUser\<lparr>picture := pic, nickname := nick, openid := oid, type := lit ''github'',
              token := opt_json tok, metadata := JStr rsp,
              email := (if has \<and> py_truthy em then em else JNull)\<rparr>)))))))"

text \<open>
  The header \<open>"token " + self.access_token\<close> is built before the request and outside the
  \<open>try\<close> block: without the attribute it raises \<open>AttributeError\<close>, with \<open>None\<close> in it
  \<open>TypeError\<close>.
\<close>

definition GitHub_get_oauth_userinfo :: "env \<Rightarrow> manager \<Rightarrow> http \<Rightarrow> (exn + OAuthUser option) \<times> manager \<times> http" where
  "GitHub_get_oauth_userinfo e m h =
     (case getattr (access_token m) of
        Inl ex \<Rightarrow> (Inl ex, m, h)
      | Inr None \<Rightarrow> (Inl TypeError, m, h)
      | Inr (Some t) \<Rightarrow>
          (case do_request h of
             (Inl ex, h1) \<Rightarrow> (Inl ex, m, h1)
           | (Inr rsp, h1) \<Rightarrow>
               (Inr (case GitHub_user e (Some t) rsp of Inl ex \<Rightarrow> None | Inr u \<Rightarrow> Some u), m, h1)))"

definition GitHub_get_access_token_by_code :: "env \<Rightarrow> manager \<Rightarrow> http \<Rightarrow> (exn + rsp_val) \<times> manager \<times> http" where
  "GitHub_get_access_token_by_code e m h =
     (case do_request h of
        (Inl ex, h1) \<Rightarrow> (Inl ex, m, h1)
      | (Inr rsp, h1) \<Rightarrow>
          (let r = parse_qs e rsp in
           if lit ''access_token'' \<in> set (map fst r)
           then (case map_of r (lit ''access_token'') of
                   None \<Rightarrow> (Inl KeyError, m, h1)
                 | Some [] \<Rightarrow> (Inl IndexError, m, h1)
                 | Some (t # ts) \<Rightarrow> (Inr (RStr t), m\<lparr>access_token := Bound (Some t)\<rparr>, h1))
           else (Inl (OAuthAccessTokenException rsp), m, h1)))"

definition GitHub_get_picture :: "env \<Rightarrow> str \<Rightarrow> exn + json" where
  "GitHub_get_picture e metadata_text =
     and_then (loads e metadata_text) (\<lambda>datas. py_getitem datas (lit ''avatar_url''))"

subsection \<open>Facebook\<close>

text \<open>
  The guard \<open>'picture' in datas and datas['picture'] and datas['picture']['data'] and
  datas['picture']['data']['url']\<close>, evaluated left to right; a lookup that fails raises.
\<close>

definition FaceBook_has_picture :: "json \<Rightarrow> exn + bool" where
  "FaceBook_has_picture datas =
     and_then (py_in (lit ''picture'') datas) (\<lambda>has.
       if \<not> has then Inr False
       else and_then (py_getitem datas (lit ''picture'')) (\<lambda>p.
         if \<not> py_truthy p then Inr False
         else and_then (py_getitem p (lit ''data'')) (\<lambda>d.
           if \<not> py_truthy d then Inr False
           else and_then (py_getitem d (lit ''url'')) (\<lambda>u. Inr (py_truthy u)))))"

definition FaceBook_picture_url :: "json \<Rightarrow> exn + json" where
  "FaceBook_picture_url datas =
     and_then (py_getitem datas (lit ''picture'')) (\<lambda>p.
     and_then (py_getitem p (lit ''data'')) (\<lambda>d. py_getitem d (lit ''url'')))"

definition FaceBook_user :: "env \<Rightarrow> str option \<Rightarrow> str \<Rightarrow> exn + OAuthUser" where
  "FaceBook_user e tok rsp =
     and_then (loads e rsp) (\<lambda>datas.
     and_then (py_getitem datas (lit ''name'')) (\<lambda>nick.
     and_then (py_getitem datas (lit ''id'')) (\<lambda>oid.
     and_then (py_in (lit ''email'') datas) (\<lambda>has.
     and_then (if has then py_getitem datas (lit ''email'') else Inr JNull) (\<lambda>em.
     and_then (FaceBook_has_picture datas) (\<lambda>has_pic.
     and_then (if has_pic then FaceBook_picture_url datas else Inr JNull) (\<lambda>u.
       Inr (new_OAuthUser\<lparr>nickname := nick, openid := oid, type := lit ''facebook'',
              token := opt_json tok, metadata := JStr rsp,
              email := (if has \<and> py_truthy em then em else JNull),
              picture := (if has_pic then JStr (py_str e u) else JNull)\<rparr>))))))))"

text \<open>
  The parameters, with \<open>self.access_token\<close> among them, are built before the \<open>try\<close>
  block; the request itself is inside it.
\<close>

definition FaceBook_get_oauth_userinfo :: "env \<Rightarrow> manager \<Rightarrow> http \<Rightarrow> (exn + OAuthUser option) \<times> manager \<times> http" where
  "FaceBook_get_oauth_userinfo e m h =
     (case getattr (access_token m) of
        Inl ex \<Rightarrow> (Inl ex, m, h)
      | Inr tok \<Rightarrow>
          (case do_request h of
             (Inl ex, h1) \<Rightarrow> (Inr None, m, h1)
           | (Inr rsp, h1) \<Rightarrow>
               (Inr (case FaceBook_user e tok rsp of Inl ex \<Rightarrow> None | Inr u \<Rightarrow> Some u), m, h1)))"

definition FaceBook_get_access_token_by_code :: "env \<Rightarrow> manager \<Rightarrow> http \<Rightarrow> (exn + rsp_val) \<times> manager \<times> http" where
  "FaceBook_get_access_token_by_code e m h =
     (case do_request h of
        (Inl ex, h1) \<Rightarrow> (Inl ex, m, h1)
      | (Inr rsp, h1) \<Rightarrow>
          (case and_then (loads e rsp) (\<lambda>obj. and_then (py_in (lit ''access_token'') obj) (\<lambda>has. Inr (obj, has))) of
             Inl ex \<Rightarrow> (Inl ex, m, h1)
           | Inr (obj, False) \<Rightarrow> (Inl (OAuthAccessTokenException rsp), m, h1)
           | Inr (obj, True) \<Rightarrow>
               (case py_getitem obj (lit ''access_token'') of
                  Inl ex \<Rightarrow> (Inl ex, m, h1)
                | Inr tok \<Rightarrow>
                    (Inr (RStr (py_str e tok)), m\<lparr>access_token := Bound (Some (py_str e tok))\<rparr>, h1))))"

definition FaceBook_get_picture :: "env \<Rightarrow> str \<Rightarrow> exn + json" where
  "FaceBook_get_picture e metadata_text =
     and_then (loads e metadata_text) (\<lambda>datas.
     and_then (FaceBook_picture_url datas) (\<lambda>u. Inr (JStr (py_str e u))))"

subsection \<open>QQ\<close>

text \<open>
  In \<open>get_access_token_by_code\<close> the \<open>else\<close> that raises belongs to \<open>if rsp:\<close>. A
  non-empty answer without the token leaves both \<open>if\<close>s and the method returns \<open>None\<close>.
\<close>

definition QQ_get_access_token_by_code :: "env \<Rightarrow> manager \<Rightarrow> http \<Rightarrow> (exn + rsp_val) \<times> manager \<times> http" where
  "QQ_get_access_token_by_code e m h =
     (case do_request h of
        (Inl ex, h1) \<Rightarrow> (Inl ex, m, h1)
      | (Inr rsp, h1) \<Rightarrow>
          if rsp \<noteq> []
          then (let d = parse_qs e rsp in
                if lit ''access_token'' \<in> set (map fst d)
                then (case map_of d (lit ''access_token'') of
                        None \<Rightarrow> (Inl KeyError, m, h1)
                      | Some [] \<Rightarrow> (Inl IndexError, m, h1)
                      | Some (t # ts) \<Rightarrow> (Inr (RList (t # ts)), m\<lparr>access_token := Bound (Some t)\<rparr>, h1))
                else (Inr RNone, m, h1))
          else (Inl (OAuthAccessTokenException rsp), m, h1))"

definition QQ_get_open_id :: "env \<Rightarrow> manager \<Rightarrow> http \<Rightarrow> (exn + str option) \<times> manager \<times> http" where
  "QQ_get_open_id e m h =
     (case is_access_token_set m of
        Inl ex \<Rightarrow> (Inl ex, m, h)
      | Inr False \<Rightarrow> (Inr None, m, h)
      | Inr True \<Rightarrow>
          (case do_request h of
             (Inl ex, h1) \<Rightarrow> (Inl ex, m, h1)
           | (Inr rsp, h1) \<Rightarrow>
               if rsp \<noteq> []
               then (let rsp1 = str_replace (lit '';'') [] (str_replace (lit '')'') [] (str_replace (lit ''callback('') [] rsp)) in
                     case and_then (loads e rsp1) (\<lambda>obj. py_getitem obj (lit ''openid'')) of
                       Inl ex \<Rightarrow> (Inl ex, m, h1)
                     | Inr v \<Rightarrow> (Inr (Some (py_str e v)), m\<lparr>manager_openid := Bound (Some (py_str e v))\<rparr>, h1))
               else (Inr None, m, h1)))"

definition QQ_user :: "env \<Rightarrow> str option \<Rightarrow> str \<Rightarrow> str \<Rightarrow> exn + OAuthUser" where
  "QQ_user e tok oid rsp =
     and_then (loads e rsp) (\<lambda>obj.
     and_then (py_getitem obj (lit ''nickname'')) (\<lambda>nick.
     and_then (py_in (lit ''email'') obj) (\<lambda>has.
     and_then (if has then py_getitem obj (lit ''email'') else Inr JNull) (\<lambda>em.
     and_then (py_in (lit ''figureurl'') obj) (\<lambda>has_pic.
     and_then (if has_pic then py_getitem obj (lit ''figureurl'') else Inr JNull) (\<lambda>fig.
       Inr (new_OAuthUser\<lparr>nickname := nick, openid := JStr oid, type := lit ''qq'',
              token := opt_json tok, metadata := JStr rsp,
              email := (if has then em else JNull),
              picture := (if has_pic then JStr (py_str e fig) else JNull)\<rparr>)))))))"

text \<open>No \<open>try\<close> here: every exception leaves the method.\<close>

definition QQ_get_oauth_userinfo :: "env \<Rightarrow> manager \<Rightarrow> http \<Rightarrow> (exn + OAuthUser option) \<times> manager \<times> http" where
  "QQ_get_oauth_userinfo e m h =
     (case QQ_get_open_id e m h of
        (Inl ex, m1, h1) \<Rightarrow> (Inl ex, m1, h1)
      | (Inr None, m1, h1) \<Rightarrow> (Inr None, m1, h1)
      | (Inr (Some oid), m1, h1) \<Rightarrow>
          if oid \<noteq> []
          then (case getattr (access_token m1) of
                  Inl ex \<Rightarrow> (Inl ex, m1, h1)
                | Inr tok \<Rightarrow>
                    (case do_request h1 of
                       (Inl ex, h2) \<Rightarrow> (Inl ex, m1, h2)
                     | (Inr rsp, h2) \<Rightarrow>
                         (case QQ_user e tok oid rsp of
                            Inl ex \<Rightarrow> (Inl ex, m1, h2)
                          | Inr u \<Rightarrow> (Inr (Some u), m1, h2))))
          else (Inr None, m1, h1))"

definition QQ_get_picture :: "env \<Rightarrow> str \<Rightarrow> exn + json" where
  "QQ_get_picture e metadata_text =
     and_then (loads e metadata_text) (\<lambda>datas.
     and_then (py_getitem datas (lit ''figureurl'')) (\<lambda>u. Inr (JStr (py_str e u))))"

subsection \<open>The methods, by class\<close>

definition get_access_token_by_code :: "env \<Rightarrow> manager \<Rightarrow> http \<Rightarrow> (exn + rsp_val) \<times> manager \<times> http" where
  "get_access_token_by_code e m h =
     (case kind m of
        WBOauthManager \<Rightarrow> WB_get_access_token_by_code e m h
      | GoogleOauthManager \<Rightarrow> Google_get_access_token_by_code e m h
      | GitHubOauthManager \<Rightarrow> GitHub_get_access_token_by_code e m h
      | FaceBookOauthManager \<Rightarrow> FaceBook_get_access_token_by_code e m h
      | QQOauthManager \<Rightarrow> QQ_get_access_token_by_code e m h)"

definition get_oauth_userinfo :: "env \<Rightarrow> manager \<Rightarrow> http \<Rightarrow> (exn + OAuthUser option) \<times> manager \<times> http" where
  "get_oauth_userinfo e m h =
     (case kind m of
        WBOauthManager \<Rightarrow> WB_get_oauth_userinfo e m h
      | GoogleOauthManager \<Rightarrow> Google_get_oauth_userinfo e m h
      | GitHubOauthManager \<Rightarrow> GitHub_get_oauth_userinfo e m h
      | FaceBookOauthManager \<Rightarrow> FaceBook_get_oauth_userinfo e m h
      | QQOauthManager \<Rightarrow> QQ_get_oauth_userinfo e m h)"

definition get_picture :: "env \<Rightarrow> provider \<Rightarrow> str \<Rightarrow> exn + json" where
  "get_picture e k metadata_text =
     (case k of
        WBOauthManager \<Rightarrow> WB_get_picture e metadata_text
      | GoogleOauthManager \<Rightarrow> Google_get_picture e metadata_text
      | GitHubOauthManager \<Rightarrow> GitHub_get_picture e metadata_text
      | FaceBookOauthManager \<Rightarrow> FaceBook_get_picture e metadata_text
      | QQOauthManager \<Rightarrow> QQ_get_picture e metadata_text)"

section \<open>The database, the session and the mail queue\<close>

text \<open>
  A table maps primary keys to rows; keys are handed out from a counter, as an
  \<open>AutoField\<close> does. \<open>configs\<close> lists the \<open>OAuthConfig\<close> rows in the model's default order.
  \<open>session\<close> is the account that \<open>login\<close> has put into the request's session, \<open>outbox\<close>
  what \<open>send_email\<close> was asked to send.
\<close>

record mail =
  emailto :: "json list"
  title :: str
  link :: str

text \<open>
  Of a mail, \<open>title\<close> is the message the view hands to the translation function \<open>_\<close> and
  \<open>link\<close> the address its content is written around.
\<close>

record world =
  oauth_users :: "nat \<Rightarrow> OAuthUser option"
  next_oauth_id :: nat
  users :: "nat \<Rightarrow> BlogUser option"
  next_user_id :: nat
  configs :: "OAuthConfig list"
  session :: "nat option"
  outbox :: "mail list"

text \<open>
  What a \<open>CharField\<close> or \<open>TextField\<close> makes of a value on its way to the database
  (\<open>to_python\<close>): a string and \<open>None\<close> pass, anything else goes through \<open>str\<close>.
\<close>

definition to_python :: "env \<Rightarrow> json \<Rightarrow> json" where
  "to_python e v = (case v of JNull \<Rightarrow> JNull | JStr s \<Rightarrow> JStr s | _ \<Rightarrow> JStr (py_str e v))"

definition text_of :: "env \<Rightarrow> json \<Rightarrow> str option" where
  "text_of e v = (case v of JNull \<Rightarrow> None | JStr s \<Rightarrow> Some s | _ \<Rightarrow> Some (py_str e v))"

definition OAuthUser_filter :: "world \<Rightarrow> (OAuthUser \<Rightarrow> bool) \<Rightarrow> nat list" where
  "OAuthUser_filter w P =
     filter (\<lambda>i. case oauth_users w i of None \<Rightarrow> False | Some r \<Rightarrow> P r) [0..<next_oauth_id w]"

definition BlogUser_filter :: "world \<Rightarrow> (BlogUser \<Rightarrow> bool) \<Rightarrow> nat list" where
  "BlogUser_filter w P =
     filter (\<lambda>i. case users w i of None \<Rightarrow> False | Some r \<Rightarrow> P r) [0..<next_user_id w]"

text \<open>
  \<open>OAuthUser.objects.get(type=ty, openid=v)\<close>: \<open>Inr None\<close> is \<open>ObjectDoesNotExist\<close>, which
  the caller catches.
\<close>

definition OAuthUser_get :: "env \<Rightarrow> world \<Rightarrow> str \<Rightarrow> json \<Rightarrow> exn + OAuthUser option" where
  "OAuthUser_get e w ty v =
     (case OAuthUser_filter w (\<lambda>r. type r = ty \<and> openid r = to_python e v) of
        [] \<Rightarrow> Inr None
      | [i] \<Rightarrow> Inr (oauth_users w i)
      | _ \<Rightarrow> Inl MultipleObjectsReturned)"

text \<open>
  \<open>user.save()\<close>: the columns take the prepared values; \<open>openid\<close> and \<open>nickname\<close> are not
  nullable. An object without a key is inserted under the next one; the result gives
  the key the object has afterwards.
\<close>

definition OAuthUser_save :: "env \<Rightarrow> OAuthUser \<Rightarrow> world \<Rightarrow> exn + (nat \<times> world)" where
  "OAuthUser_save e u w =
     (if to_python e (openid u) = JNull \<or> to_python e (nickname u) = JNull then Inl IntegrityError
      else (let i = (case pk u of None \<Rightarrow> next_oauth_id w | Some j \<Rightarrow> j);
                row = u\<lparr>pk := Some i, openid := to_python e (openid u), nickname := to_python e (nickname u),
                        token := to_python e (token u), picture := to_python e (picture u),
                        email := to_python e (email u), metadata := to_python e (metadata u)\<rparr>
            in Inr (i, w\<lparr>oauth_users := (oauth_users w)(i \<mapsto> row),
                          next_oauth_id := (case pk u of None \<Rightarrow> Suc (next_oauth_id w) | Some j \<Rightarrow> next_oauth_id w)\<rparr>)))"

text \<open>
  \<open>get_user_model().objects.get_or_create(email=v)\<close>: the key of the account and whether
  it was created. A created account has the empty username until the caller sets one;
  \<open>username\<close> is unique and \<open>email\<close> is not nullable.
\<close>

definition BlogUser_get_or_create :: "env \<Rightarrow> world \<Rightarrow> json \<Rightarrow> exn + (nat \<times> bool \<times> world)" where
  "BlogUser_get_or_create e w v =
     (case text_of e v of
        None \<Rightarrow> Inl IntegrityError
      | Some addr \<Rightarrow>
          (case BlogUser_filter w (\<lambda>b. user_email b = addr) of
             [] \<Rightarrow>
               if BlogUser_filter w (\<lambda>b. username b = []) \<noteq> [] then Inl IntegrityError
               else Inr (next_user_id w, True,
                         w\<lparr>users := (users w)(next_user_id w \<mapsto> \<lparr>username = [], user_email = addr, source = []\<rparr>),
                           next_user_id := Suc (next_user_id w)\<rparr>)
           | [a] \<Rightarrow> Inr (a, False, w)
           | _ \<Rightarrow> Inl MultipleObjectsReturned))"

text \<open>\<open>author.save()\<close> after the username and the source were set on the account \<open>a\<close>.\<close>

definition BlogUser_save :: "world \<Rightarrow> nat \<Rightarrow> str \<Rightarrow> str \<Rightarrow> exn + world" where
  "BlogUser_save w a name src =
     (case users w a of
        None \<Rightarrow> Inl IntegrityError
      | Some b \<Rightarrow>
          if filter (\<lambda>i. i \<noteq> a) (BlogUser_filter w (\<lambda>b'. username b' = name)) \<noteq> [] then Inl IntegrityError
          else Inr (w\<lparr>users := (users w)(a \<mapsto> b\<lparr>username := name, source := src\<rparr>)\<rparr>))"

section \<open>The provider registry: \<open>get_oauth_apps\<close>, \<open>get_manager_by_type\<close>\<close>

text \<open>
  The cache in front of \<open>get_oauth_apps\<close> is left out: the registry is computed from the
  current configuration rows, with a fresh instance of every class. Each class's
  \<open>__init__\<close> reads the configuration and calls \<open>super().__init__\<close>. For \<open>WBOauthManager\<close>
  and \<open>QQOauthManager\<close> that is \<open>BaseOauthManager.__init__\<close>, which sets \<open>access_token\<close>
  and \<open>openid\<close> to \<open>None\<close>. For the three classes that list \<open>ProxyManagerMixin\<close> first
  it is the mixin's \<open>__init__\<close>, which does not pass the call on: their instances start
  without the two attributes.
\<close>

definition initial_attr :: "provider \<Rightarrow> attr" where
  "initial_attr k =
     (case k of
        WBOauthManager \<Rightarrow> Bound None
      | GoogleOauthManager \<Rightarrow> Missing
      | GitHubOauthManager \<Rightarrow> Missing
      | FaceBookOauthManager \<Rightarrow> Missing
      | QQOauthManager \<Rightarrow> Bound None)"

definition get_config :: "world \<Rightarrow> provider \<Rightarrow> OAuthConfig option" where
  "get_config w k =
     (case filter (\<lambda>c. config_type c = ICON_NAME k) (configs w) of [] \<Rightarrow> None | c # cs \<Rightarrow> Some c)"

definition new_manager :: "world \<Rightarrow> provider \<Rightarrow> manager" where
  "new_manager w k =
     (case get_config w k of
        None \<Rightarrow> \<lparr>kind = k, client_id = [], client_secret = [], callback_url = [],
                  access_token = initial_attr k, manager_openid = initial_attr k\<rparr>
      | Some c \<Rightarrow> \<lparr>kind = k, client_id = appkey c, client_secret = appsecret c,
                    callback_url = config_callback_url c,
                    access_token = initial_attr k, manager_openid = initial_attr k\<rparr>)"

definition subclasses :: "provider list" where
  "subclasses = [WBOauthManager, GoogleOauthManager, GitHubOauthManager, FaceBookOauthManager, QQOauthManager]"

definition get_oauth_apps :: "env \<Rightarrow> world \<Rightarrow> manager list" where
  "get_oauth_apps e w =
     (let enabled = filter is_enable (configs w) in
      if enabled = [] then []
      else map (new_manager w)
             (filter (\<lambda>k. str_lower e (ICON_NAME k) \<in> set (map config_type enabled)) subclasses))"

definition get_manager_by_type :: "env \<Rightarrow> world \<Rightarrow> str \<Rightarrow> manager option" where
  "get_manager_by_type e w ty =
     (case filter (\<lambda>m. str_lower e (ICON_NAME (kind m)) = str_lower e ty) (get_oauth_apps e w) of
        [] \<Rightarrow> None
      | m # ms \<Rightarrow> Some m)"

section \<open>The views (oauth/views.py)\<close>

text \<open>
  \<open>Raised ex\<close>: the exception \<open>ex\<close> leaves the view, and Django answers with an error page
  (status 500, or 400 for \<open>DisallowedRedirect\<close>). \<open>stamp\<close> is what
  \<open>timezone.now().strftime('%y%m%d%I%M%S')\<close> gives during the request.
\<close>

datatype response =
    HttpResponseRedirect str
  | HttpResponseForbidden
  | Http404
  | Raised exn

record request =
  GET_type :: "str option"
  GET_code :: "str option"
  GET_next_url :: "str option"
  stamp :: str

text \<open>
  The constructor \<open>HttpResponseRedirect(url)\<close> parses the URL and raises
  \<open>DisallowedRedirect\<close> when it has a scheme other than \<open>http\<close>, \<open>https\<close> and \<open>ftp\<close>.
  \<open>redirect_to\<close> is the constructor applied to the client's \<open>next_url\<close>. The other
  redirects of the views go to \<open>/\<close>, to a path that \<open>reverse\<close> built, or to an adapter's
  authorization URL, which starts with \<open>AUTH_URL\<close>: they have no scheme or the scheme
  \<open>https\<close>, and the constructor is written for them as it is.
\<close>

definition redirect_to :: "env \<Rightarrow> str \<Rightarrow> exn + response" where
  "redirect_to e url =
     (case urlsplit e url of
        None \<Rightarrow> Inl ValueError
      | Some (scheme, netloc) \<Rightarrow>
          if scheme \<noteq> [] \<and> scheme \<notin> set [lit ''http'', lit ''https'', lit ''ftp'']
          then Inl DisallowedRedirect
          else Inr (HttpResponseRedirect url))"

definition oauthlogin :: "env \<Rightarrow> world \<Rightarrow> request \<Rightarrow> response" where
  "oauthlogin e w req =
     (case GET_type req of
        None \<Rightarrow> HttpResponseRedirect (lit ''/'')
      | Some ty \<Rightarrow>
          if ty = [] then HttpResponseRedirect (lit ''/'')
          else (case get_manager_by_type e w ty of
                  None \<Rightarrow> HttpResponseRedirect (lit ''/'')
                | Some m \<Rightarrow>
                    (case get_redirecturl (urlsplit e) (site_domain e) (GET_next_url req) of
                       None \<Rightarrow> Raised ValueError
                     | Some nexturl \<Rightarrow> HttpResponseRedirect (get_authorization_url e m nexturl))))"

subsection \<open>\<open>authorize\<close>: the callback\<close>

text \<open>Lines 121-122: an empty or blank nickname is replaced.\<close>

definition default_nickname :: "str \<Rightarrow> str" where
  "default_nickname st = lit ''djangoblog'' @ st"

definition fix_nickname :: "str \<Rightarrow> OAuthUser \<Rightarrow> exn + OAuthUser" where
  "fix_nickname st u =
     (if \<not> py_truthy (nickname u) then Inr (u\<lparr>nickname := JStr (default_nickname st)\<rparr>)
      else (case nickname u of
              JStr s \<Rightarrow> if str_strip s = [] then Inr (u\<lparr>nickname := JStr (default_nickname st)\<rparr>) else Inr u
            | _ \<Rightarrow> Inl AttributeError))"

text \<open>
  Lines 124-133: the stored row for the request's \<open>type\<close> and the fetched \<open>openid\<close>, if
  there is one, takes the fetched picture, metadata and nickname and replaces \<open>user\<close>.
\<close>

definition existing_or_fetched :: "env \<Rightarrow> world \<Rightarrow> str \<Rightarrow> OAuthUser \<Rightarrow> exn + OAuthUser" where
  "existing_or_fetched e w ty u =
     (case OAuthUser_get e w ty (openid u) of
        Inl ex \<Rightarrow> Inl ex
      | Inr None \<Rightarrow> Inr u
      | Inr (Some temp) \<Rightarrow> Inr (temp\<lparr>picture := picture u, metadata := metadata u, nickname := nickname u\<rparr>))"

text \<open>
  Lines 141-174, the body of \<open>transaction.atomic()\<close> up to the redirect. \<open>username_for\<close> and
  \<open>account_for\<close> are lines 142-163: the account already linked, or the account with the
  user's email (created if there is none, and then named after the nickname, or after
  the clock when that name is taken). \<open>link_by_email\<close> then stores the link and logs the
  account in. The result is the account's key and the new state; an exception leaves the
  block and the caller keeps the state it had.
\<close>

definition username_for :: "env \<Rightarrow> world \<Rightarrow> str \<Rightarrow> json \<Rightarrow> exn + str" where
  "username_for e w st nick =
     (case text_of e nick of
        None \<Rightarrow> Inl IntegrityError
      | Some name \<Rightarrow>
          (case BlogUser_filter w (\<lambda>b. username b = name) of
             [] \<Rightarrow> Inr name
           | [i] \<Rightarrow> Inr (default_nickname st)
           | _ \<Rightarrow> Inl MultipleObjectsReturned))"

definition account_for :: "env \<Rightarrow> world \<Rightarrow> str \<Rightarrow> OAuthUser \<Rightarrow> exn + (nat \<times> world)" where
  "account_for e w st user =
     (case (case author_id user of None \<Rightarrow> None | Some a \<Rightarrow> (case users w a of None \<Rightarrow> None | Some b \<Rightarrow> Some a)) of
        Some a \<Rightarrow> Inr (a, w)
      | None \<Rightarrow>
          and_then (BlogUser_get_or_create e w (email user)) (\<lambda>(a, created, w1).
            if created
            then and_then (username_for e w1 st (nickname user)) (\<lambda>name.
                 and_then (BlogUser_save w1 a name (lit ''authorize'')) (\<lambda>w2. Inr (a, w2)))
            else Inr (a, w1)))"

definition link_by_email :: "env \<Rightarrow> world \<Rightarrow> str \<Rightarrow> OAuthUser \<Rightarrow> exn + (nat \<times> world)" where
  "link_by_email e w st user =
     and_then (account_for e w st user) (\<lambda>(a, w1).
       and_then (OAuthUser_save e (user\<lparr>author_id := Some a\<rparr>) w1) (\<lambda>(i, w2).
         Inr (a, w2\<lparr>session := Some a\<rparr>)))"

text \<open>
  Lines 119-182: what the view does with a fetched user. The receivers of
  \<open>oauth_user_login_signal\<close> are not among the source files and are left out. The redirect
  of line 175 is built inside the \<open>transaction.atomic()\<close> block: when the constructor
  raises, the block is left by the exception and what it wrote to the tables is rolled
  back. \<open>login\<close> has put the account into the request's session by then; the session is
  not a table of this transaction (the session middleware stores it with the response),
  so it stays.
\<close>

definition authorize_user :: "env \<Rightarrow> world \<Rightarrow> str \<Rightarrow> str \<Rightarrow> str \<Rightarrow> OAuthUser \<Rightarrow> response \<times> world" where
  "authorize_user e w ty nexturl st user0 =
     (case and_then (fix_nickname st user0) (existing_or_fetched e w ty) of
        Inl ex \<Rightarrow> (Raised ex, w)
      | Inr user1 \<Rightarrow>
          (let user = (if ty = lit ''facebook'' then user1\<lparr>token := JStr []\<rparr> else user1) in
           if py_truthy (email user)
           then (case link_by_email e w st user of
                   Inl ex \<Rightarrow> (Raised ex, w)
                 | Inr (a, w1) \<Rightarrow>
                     (case redirect_to e nexturl of
                        Inl ex \<Rightarrow> (Raised ex, w\<lparr>session := Some a\<rparr>)
                      | Inr resp \<Rightarrow> (resp, w1)))
           else (case OAuthUser_save e user w of
                   Inl ex \<Rightarrow> (Raised ex, w)
                 | Inr (i, w1) \<Rightarrow>
                     (HttpResponseRedirect (lit ''/oauth/requireemail/'' @ str_of_nat i @ lit ''.html''), w1))))"

text \<open>
  The whole view. \<open>h\<close> holds the provider's answers to the requests the adapter makes
  during this callback.
\<close>

definition authorize :: "env \<Rightarrow> world \<Rightarrow> request \<Rightarrow> http \<Rightarrow> response \<times> world" where
  "authorize e w req h =
     (case GET_type req of
        None \<Rightarrow> (HttpResponseRedirect (lit ''/''), w)
      | Some ty \<Rightarrow>
          if ty = [] then (HttpResponseRedirect (lit ''/''), w)
          else (case get_manager_by_type e w ty of
                  None \<Rightarrow> (HttpResponseRedirect (lit ''/''), w)
                | Some m \<Rightarrow>
                    (case get_access_token_by_code e m h of
                       (Inl (OAuthAccessTokenException msg), m1, h1) \<Rightarrow> (HttpResponseRedirect (lit ''/''), w)
                     | (r, m1, h1) \<Rightarrow>
                         (let rsp = (case r of Inl ex \<Rightarrow> RNone | Inr v \<Rightarrow> v) in
                          case get_redirecturl (urlsplit e) (site_domain e) (GET_next_url req) of
                            None \<Rightarrow> (Raised ValueError, w)
                          | Some nexturl \<Rightarrow>
                              if \<not> rsp_truthy rsp
                              then (HttpResponseRedirect (get_authorization_url e m1 nexturl), w)
                              else (case get_oauth_userinfo e m1 h1 of
                                      (Inl ex, m2, h2) \<Rightarrow> (Raised ex, w)
                                    | (Inr None, m2, h2) \<Rightarrow>
                                        (case redirect_to e nexturl of
                                           Inl ex \<Rightarrow> (Raised ex, w)
                                         | Inr resp \<Rightarrow> (resp, w))
                                    | (Inr (Some user), m2, h2) \<Rightarrow>
                                        authorize_user e w ty nexturl (stamp req) user)))))"

subsection \<open>\<open>RequireEmailView.form_valid\<close>: the email form\<close>

text \<open>
  \<open>addr\<close> and \<open>oauthid\<close> are the form's cleaned data: a well-formed address, and an integer
  or \<open>None\<close> (the field is not required). \<open>reverse\<close> fails on a signature that the route's
  \<open><sign>\<close> does not match (one that is empty or holds a slash), and quotes the path it
  builds, keeping the characters of \<open>reverse_safe\<close>.
\<close>

definition reverse_safe :: str where
  "reverse_safe = lit ''!$&'' @ [0x27] @ lit ''()*+,;=/~:@''"

definition OAuthUser_by_pk :: "world \<Rightarrow> int option \<Rightarrow> (nat \<times> OAuthUser) option" where
  "OAuthUser_by_pk w key =
     (case key of
        None \<Rightarrow> None
      | Some k \<Rightarrow> if k < 0 then None
                  else (case oauth_users w (nat k) of None \<Rightarrow> None | Some r \<Rightarrow> Some (nat k, r)))"

definition form_valid :: "env \<Rightarrow> world \<Rightarrow> str \<Rightarrow> int option \<Rightarrow> response \<times> world" where
  "form_valid e w addr oauthid =
     (case OAuthUser_by_pk w oauthid of
        None \<Rightarrow> (Http404, w)
      | Some (i, oauthuser) \<Rightarrow>
          (case OAuthUser_save e (oauthuser\<lparr>email := JStr addr\<rparr>) w of
             Inl ex \<Rightarrow> (Raised ex, w)
           | Inr (j, w1) \<Rightarrow>
               (let sign = get_sha256 e (SECRET_KEY e @ str_of_nat i @ SECRET_KEY e);
                    site = (if DEBUG e then lit ''127.0.0.1:8000'' else site_domain e)
                in if sign = [] \<or> cp CHR ''/'' \<in> set sign then (Raised NoReverseMatch, w1)
                   else (let path = lit ''/oauth/emailconfirm/'' @ str_of_nat i @ lit ''/''
                                    @ quote reverse_safe sign @ lit ''.html'';
                             url = lit ''http://'' @ site @ path
                         in (HttpResponseRedirect (lit ''/oauth/bindsuccess/'' @ str_of_nat i @ lit ''.html?type=email''),
                             w1\<lparr>outbox := outbox w1 @ [\<lparr>emailto = [JStr addr], title = lit ''Bind your email'', link = url\<rparr>]\<rparr>)))))"

subsection \<open>\<open>emailconfirm\<close>: the confirmation link\<close>

text \<open>
  The body of the \<open>transaction.atomic()\<close> block. \<open>confirmed_account\<close>: the linked account,
  or the account with the stored email (created if there is none and named after the
  stripped nickname, or after the clock when that is empty). \<open>confirm_link\<close> then stores
  the link.
\<close>

definition confirmed_account :: "env \<Rightarrow> world \<Rightarrow> str \<Rightarrow> OAuthUser \<Rightarrow> exn + (nat \<times> world)" where
  "confirmed_account e w st oauthuser =
     (case author_id oauthuser of
        Some a \<Rightarrow> (case users w a of None \<Rightarrow> Inl DoesNotExist | Some b \<Rightarrow> Inr (a, w))
      | None \<Rightarrow>
          and_then (BlogUser_get_or_create e w (email oauthuser)) (\<lambda>(a, created, w1).
            if created
            then (case nickname oauthuser of
                    JStr s \<Rightarrow>
                      and_then (BlogUser_save w1 a
                                  (if str_strip s \<noteq> [] then str_strip s else default_nickname st)
                                  (lit ''emailconfirm''))
                        (\<lambda>w2. Inr (a, w2))
                  | _ \<Rightarrow> Inl AttributeError)
            else Inr (a, w1)))"

definition confirm_link :: "env \<Rightarrow> world \<Rightarrow> str \<Rightarrow> OAuthUser \<Rightarrow> exn + (nat \<times> world)" where
  "confirm_link e w st oauthuser =
     and_then (confirmed_account e w st oauthuser) (\<lambda>(a, w1).
       and_then (OAuthUser_save e (oauthuser\<lparr>author_id := Some a\<rparr>) w1) (\<lambda>(i, w2). Inr (a, w2)))"

definition emailconfirm :: "env \<Rightarrow> world \<Rightarrow> str \<Rightarrow> nat \<Rightarrow> str \<Rightarrow> response \<times> world" where
  "emailconfirm e w st i sign =
     (if sign = [] then (HttpResponseForbidden, w)
      else if \<not> (str_upper e (get_sha256 e (SECRET_KEY e @ str_of_nat i @ SECRET_KEY e)) = str_upper e sign)
      then (HttpResponseForbidden, w)
      else (case oauth_users w i of
              None \<Rightarrow> (Http404, w)
            | Some oauthuser \<Rightarrow>
                (case confirm_link e w st oauthuser of
                   Inl ex \<Rightarrow> (Raised ex, w)
                 | Inr (a, w1) \<Rightarrow>
                     (HttpResponseRedirect (lit ''/oauth/bindsuccess/'' @ str_of_nat i @ lit ''.html?type=success''),
                      w1\<lparr>session := Some a,
                         outbox := outbox w1 @
                           [\<lparr>emailto = [email oauthuser],
                             title = lit ''Congratulations on your successful binding!'',
                             link = lit ''http://'' @ site_domain e\<rparr>]\<rparr>))))"

section \<open>Rows as the database holds them, and digests\<close>

text \<open>
  A row read back from the table carries its key, and its columns hold text (or
  \<open>NULL\<close> where the column allows it).
\<close>

definition is_JStr :: "json \<Rightarrow> bool" where
  "is_JStr v = (case v of JStr s \<Rightarrow> True | _ \<Rightarrow> False)"

definition is_text :: "json \<Rightarrow> bool" where
  "is_text v = (case v of JStr s \<Rightarrow> True | JNull \<Rightarrow> True | _ \<Rightarrow> False)"

definition stored_row :: "nat \<Rightarrow> OAuthUser \<Rightarrow> bool" where
  "stored_row i r =
     (pk r = Some i \<and> is_JStr (openid r) \<and> is_JStr (nickname r) \<and> is_text (token r)
      \<and> is_text (picture r) \<and> is_text (email r) \<and> is_text (metadata r))"

text \<open>
  \<open>get_sha256\<close> is a helper of \<open>djangoblog.utils\<close>. What the properties below need of it
  is stated with these two predicates: its result is a hexadecimal digest (not empty,
  digits and the letters \<open>a\<close> to \<open>f\<close>), and two texts that differ have different digests.
\<close>

definition is_hex_char :: "int \<Rightarrow> bool" where
  "is_hex_char c = ((48 \<le> c \<and> c \<le> 57) \<or> (97 \<le> c \<and> c \<le> 102))"

definition is_hexdigest :: "str \<Rightarrow> bool" where
  "is_hexdigest s = (s \<noteq> [] \<and> list_all is_hex_char s)"

definition no_collision :: "env \<Rightarrow> str \<Rightarrow> str \<Rightarrow> bool" where
  "no_collision e x y = (get_sha256 e x = get_sha256 e y \<longrightarrow> x = y)"

section \<open>An environment and a state for evaluation\<close>

text \<open>
  Concrete values for the parameters, used where a property is evaluated on an input.
  Each stands in for the library function on the inputs of the examples.
  \<open>sample_digest\<close> stands in for the hexadecimal digest (\<open>ff\<close> followed by the decimal
  codes of the characters). \<open>sample_loads\<close> and \<open>sample_parse_qs\<close> list what \<open>json.loads\<close>
  and \<open>parse_qs\<close> return on the provider answers named here. \<open>sample_ToUpperFull\<close> and
  \<open>sample_lower\<close> hold the Unicode database's entries for the ligature \<open>U+FB00\<close> (in
  upper case \<open>FF\<close>) and the Kelvin sign \<open>U+212A\<close> (in lower case \<open>k\<close>), \<open>sample_NFKC\<close> the
  one for the account sign \<open>U+2100\<close> (in NFKC form \<open>a/c\<close>). \<open>sample_check_bracketed_host\<close>
  knows the loopback address \<open>::1\<close>, \<open>sample_container_str\<close> the empty list and the empty
  dict.
\<close>

definition answer_token_error :: str where
  \<open>answer_token_error = lit ''{"error": "invalid_grant"}''\<close>

definition answer_token_old :: str where
  \<open>answer_token_old = lit ''{"access_token": "old", "uid": "42"}''\<close>

definition answer_token_new :: str where
  \<open>answer_token_new = lit ''{"access_token": "new", "uid": "42"}''\<close>

definition answer_profile_no_email :: str where
  \<open>answer_profile_no_email = lit ''{"avatar_large": "http://img/b.png", "screen_name": "bob", "id": "42"}''\<close>

definition answer_facebook_empty_url :: str where
  \<open>answer_facebook_empty_url = lit ''{"name": "eve", "id": "7", "picture": {"data": {"url": ""}}}''\<close>

definition answer_facebook_profile :: str where
  \<open>answer_facebook_profile = lit ''{"name": "eve", "id": "7", "picture": {"data": {"url": "http://img/e.png"}}}''\<close>

definition answer_facebook_token :: str where
  \<open>answer_facebook_token = lit ''{"access_token": "fbtok"}''\<close>

definition answer_qq_error :: str where
  \<open>answer_qq_error = lit ''callback( {"error":100019,"error_description":"code to access token error"} );''\<close>

definition sample_digest :: "str \<Rightarrow> str" where
  "sample_digest s = lit ''ff'' @ concat (map (\<lambda>c. str_of_nat (nat c)) s)"

definition sample_loads :: "str \<Rightarrow> json option" where
  "sample_loads s = map_of
     [(answer_token_error, JObj [(lit ''error'', JStr (lit ''invalid_grant''))]),
      (answer_token_old, JObj [(lit ''access_token'', JStr (lit ''old'')), (lit ''uid'', JStr (lit ''42''))]),
      (answer_token_new, JObj [(lit ''access_token'', JStr (lit ''new'')), (lit ''uid'', JStr (lit ''42''))]),
      (answer_profile_no_email,
         JObj [(lit ''avatar_large'', JStr (lit ''http://img/b.png'')), (lit ''screen_name'', JStr (lit ''bob'')), (lit ''id'', JStr (lit ''42''))]),
      (answer_facebook_token, JObj [(lit ''access_token'', JStr (lit ''fbtok''))]),
      (answer_facebook_empty_url,
         JObj [(lit ''name'', JStr (lit ''eve'')), (lit ''id'', JStr (lit ''7'')),
               (lit ''picture'', JObj [(lit ''data'', JObj [(lit ''url'', JStr [])])])]),
      (answer_facebook_profile,
         JObj [(lit ''name'', JStr (lit ''eve'')), (lit ''id'', JStr (lit ''7'')),
               (lit ''picture'', JObj [(lit ''data'', JObj [(lit ''url'', JStr (lit ''http://img/e.png''))])])])] s"

definition sample_parse_qs :: "str \<Rightarrow> (str \<times> str list) list" where
  "sample_parse_qs s =
     (if s = lit ''access_token=tok&expires_in=3600''
      then [(lit ''access_token'', [lit ''tok'']), (lit ''expires_in'', [lit ''3600''])]
      else [])"

definition sample_ToUpperFull :: "int \<Rightarrow> str" where
  "sample_ToUpperFull c = (if c = 0xFB00 then lit ''FF'' else [c])"

definition sample_lower :: "str \<Rightarrow> str" where
  "sample_lower s = map (\<lambda>c. if c = 0x212A then cp CHR ''k'' else ascii_lower c) s"

definition sample_NFKC :: "str \<Rightarrow> str" where
  "sample_NFKC s = concat (map (\<lambda>c. if c = 0x2100 then lit ''a/c'' else [c]) s)"

definition sample_check_bracketed_host :: "str \<Rightarrow> bool" where
  "sample_check_bracketed_host host = (host = lit ''::1'')"

definition sample_container_str :: "json \<Rightarrow> str" where
  "sample_container_str v = (if v = JArr [] then lit ''[]'' else if v = JObj [] then lit ''{}'' else [])"

definition sample_env :: env where
  "sample_env = \<lparr>SECRET_KEY = lit ''k3y'', DEBUG = False, site_domain = lit ''example.com'',
     get_sha256 = sample_digest, json_loads = sample_loads, parse_qs = sample_parse_qs,
     container_str = sample_container_str, ToUpperFull = sample_ToUpperFull, unicode_lower = sample_lower,
     NFKC = sample_NFKC, check_bracketed_host = sample_check_bracketed_host\<rparr>"

definition sample_configs :: "OAuthConfig list" where
  "sample_configs =
     map (\<lambda>k. \<lparr>config_type = ICON_NAME k, appkey = lit ''appkey'', appsecret = lit ''appsecret'',
                config_callback_url = lit ''http://example.com/oauth/authorize?type='' @ ICON_NAME k,
                is_enable = True\<rparr>) subclasses"

definition empty_world :: world where
  "empty_world = \<lparr>oauth_users = (\<lambda>i. None), next_oauth_id = 1, users = (\<lambda>i. None), next_user_id = 1,
     configs = sample_configs, session = None, outbox = []\<rparr>"

text \<open>
  A Weibo callback (\<open>/oauth/authorize?type=...&code=code\<close>) and the three answers Weibo
  gives during it: the token, and the profile twice (once inside
  \<open>get_access_token_by_code\<close>, once for the view). The profile has no email.
\<close>

definition callback_request :: "str \<Rightarrow> request" where
  "callback_request ty = \<lparr>GET_type = Some ty, GET_code = Some (lit ''code''), GET_next_url = None,
     stamp = lit ''260101093000''\<rparr>"

definition weibo_answers :: "str \<Rightarrow> http" where
  "weibo_answers token_answer = [Some token_answer, Some answer_profile_no_email, Some answer_profile_no_email]"

text \<open>
  A stored identity that is already linked and already has an email; its nickname,
  picture and metadata are not those of \<open>answer_profile_no_email\<close>.
\<close>

definition linked_row :: OAuthUser where
  "linked_row = \<lparr>pk = Some 1, author_id = Some 1, openid = JStr (lit ''42''), nickname = JStr (lit ''robert''),
     token = JStr (lit ''old''), picture = JStr (lit ''http://img/a.png''), type = lit ''weibo'',
     email = JStr (lit ''a@x.com''), metadata = JNull\<rparr>"

definition linked_world :: world where
  "linked_world = empty_world\<lparr>
     oauth_users := (\<lambda>i. None)(1 \<mapsto> linked_row), next_oauth_id := 2,
     users := (\<lambda>i. None)(1 \<mapsto> \<lparr>username = lit ''bob'', user_email = lit ''a@x.com'', source = lit ''authorize''\<rparr>),
     next_user_id := 2\<rparr>"

text \<open>
  The users the adapters build from \<open>answer_profile_no_email\<close> (with the token \<open>new\<close>) and
  from \<open>answer_facebook_profile\<close> (with the token of \<open>answer_facebook_token\<close>).
\<close>

definition fetched_weibo_user :: OAuthUser where
  "fetched_weibo_user = new_OAuthUser\<lparr>metadata := JStr answer_profile_no_email,
     picture := JStr (lit ''http://img/b.png''), nickname := JStr (lit ''bob''), openid := JStr (lit ''42''),
     type := lit ''weibo'', token := JStr (lit ''new'')\<rparr>"

definition fetched_facebook_user :: OAuthUser where
  "fetched_facebook_user = new_OAuthUser\<lparr>nickname := JStr (lit ''eve''), openid := JStr (lit ''7''),
     type := lit ''facebook'', token := JStr (lit ''fbtok''), metadata := JStr answer_facebook_profile,
     picture := JStr (lit ''http://img/e.png'')\<rparr>"

section \<open>Sequences of requests and the invariants of the identity table\<close>

text \<open>
  The three requests that change the state, and a run of them. \<open>rows_stored\<close>: every row
  sits under its own key, below the key counter, with text in its columns.
  \<open>unique_identity\<close>: no two rows have the same type and external id. \<open>fits\<close>: saving the
  object does not add a second row for an identity (it is new and no row has its
  identity, or it is a row of the table with its identity unchanged). \<open>lower_case_type\<close>:
  a callback's \<open>type\<close> parameter is written in lower case, as the adapters' names are.
\<close>

datatype op =
    Callback request http
  | EmailForm str "int option"
  | Confirmation str nat str

fun step :: "env \<Rightarrow> world \<Rightarrow> op \<Rightarrow> world" where
  "step e w (Callback req h) = snd (authorize e w req h)"
| "step e w (EmailForm addr oauthid) = snd (form_valid e w addr oauthid)"
| "step e w (Confirmation st i sign) = snd (emailconfirm e w st i sign)"

definition run :: "env \<Rightarrow> world \<Rightarrow> op list \<Rightarrow> world" where
  "run e w ops = foldl (step e) w ops"

fun lower_case_type :: "env \<Rightarrow> op \<Rightarrow> bool" where
  "lower_case_type e (Callback req h) = (case GET_type req of None \<Rightarrow> True | Some ty \<Rightarrow> str_lower e ty = ty)"
| "lower_case_type e (EmailForm addr oauthid) = True"
| "lower_case_type e (Confirmation st i sign) = True"

definition rows_stored :: "world \<Rightarrow> bool" where
  "rows_stored w = (\<forall>i r. oauth_users w i = Some r \<longrightarrow> stored_row i r \<and> i < next_oauth_id w)"

definition unique_identity :: "world \<Rightarrow> bool" where
  "unique_identity w =
     (\<forall>i j r r'. oauth_users w i = Some r \<and> oauth_users w j = Some r' \<and> type r = type r' \<and> openid r = openid r'
        \<longrightarrow> i = j)"

definition fits :: "env \<Rightarrow> world \<Rightarrow> OAuthUser \<Rightarrow> bool" where
  "fits e w u =
     ((pk u = None \<and> (\<forall>i r. oauth_users w i = Some r \<longrightarrow> \<not> (type r = type u \<and> openid r = to_python e (openid u))))
      \<or> (\<exists>i r0. pk u = Some i \<and> oauth_users w i = Some r0 \<and> type u = type r0 \<and> to_python e (openid u) = openid r0))"

section \<open>Properties\<close>

subsection \<open>Auxiliary facts\<close>

lemma to_python_text: "is_text v \<Longrightarrow> to_python e v = v"
  by (cases v) (simp_all add: to_python_def is_text_def)

lemma to_python_JStr: "is_JStr v \<Longrightarrow> to_python e v = v"
  by (cases v) (simp_all add: to_python_def is_JStr_def)

lemma is_JStr_not_null: "is_JStr v \<Longrightarrow> v \<noteq> JNull"
  by (cases v) (simp_all add: is_JStr_def)

lemma lit_eq_iff [simp]: "(lit a = lit b) = (a = b)"
  by (simp add: lit_def inj_map_eq_map inj_on_def)

lemma lit_Nil [simp]: "lit [] = []"
  by (simp add: lit_def)

lemma lit_eq_Nil [simp]: "(lit a = []) = (a = [])"
  by (simp add: lit_def)

lemma str_upper_append: "str_upper e (xs @ ys) = str_upper e xs @ str_upper e ys"
  by (simp add: str_upper_def)

lemma str_upper_update:
  assumes "k < length s"
  shows "str_upper e (s[k := c]) = str_upper e (take k s) @ upper_char e c @ str_upper e (drop (Suc k) s)"
  using assms by (simp add: upd_conv_take_nth_drop str_upper_def)

lemma str_upper_nth:
  assumes "k < length s"
  shows "str_upper e s = str_upper e (take k s) @ upper_char e (s ! k) @ str_upper e (drop (Suc k) s)"
proof -
  from assms have "s = take k s @ s ! k # drop (Suc k) s" by (simp add: id_take_nth_drop)
  then have "str_upper e s = str_upper e (take k s @ s ! k # drop (Suc k) s)" by simp
  then show ?thesis by (simp add: str_upper_def)
qed

lemma str_upper_mutated:
  assumes "k < length s"
  shows "(str_upper e (s[k := c]) = str_upper e s) = (upper_char e c = upper_char e (s ! k))"
  using str_upper_update[OF assms, of e c] str_upper_nth[OF assms, of e] by simp

lemma emailconfirm_not_forbidden:
  assumes "sign \<noteq> []"
    and "str_upper e (get_sha256 e (SECRET_KEY e @ str_of_nat i @ SECRET_KEY e)) = str_upper e sign"
  shows "fst (emailconfirm e w st i sign) \<noteq> HttpResponseForbidden"
  using assms by (simp add: emailconfirm_def split: option.splits sum.splits prod.splits)

lemma emailconfirm_forbidden:
  assumes "str_upper e (get_sha256 e (SECRET_KEY e @ str_of_nat i @ SECRET_KEY e)) \<noteq> str_upper e sign"
  shows "emailconfirm e w st i sign = (HttpResponseForbidden, w)"
  using assms by (simp add: emailconfirm_def)

lemma OAuthUser_save_stored:
  assumes "stored_row i r"
  shows "OAuthUser_save e (r\<lparr>email := JStr addr\<rparr>) w
           = Inr (i, w\<lparr>oauth_users := (oauth_users w)(i \<mapsto> r\<lparr>email := JStr addr\<rparr>)\<rparr>)"
proof -
  from assms have k: "pk r = Some i" and o: "is_JStr (openid r)" and n: "is_JStr (nickname r)"
    and t: "is_text (token r)" and p: "is_text (picture r)" and m: "is_text (metadata r)"
    by (simp_all add: stored_row_def)
  have row: "r\<lparr>pk := Some i\<rparr> = r"
    using k by (cases r) simp
  show ?thesis
    using k
    by (simp add: OAuthUser_save_def to_python_JStr[OF o] to_python_JStr[OF n] to_python_text[OF t]
        to_python_text[OF p] to_python_text[OF m] is_JStr_not_null[OF o] is_JStr_not_null[OF n]
        to_python_def[of e "JStr addr"] row)
qed

lemma and_then_Inr: "(and_then m f = Inr y) = (\<exists>x. m = Inr x \<and> f x = Inr y)"
  by (cases m) (simp_all add: and_then_def)

lemma fix_nickname_fields:
  "fix_nickname st u0 = Inr u \<Longrightarrow>
     openid u = openid u0 \<and> picture u = picture u0 \<and> metadata u = metadata u0 \<and> token u = token u0
     \<and> email u = email u0 \<and> pk u = pk u0 \<and> author_id u = author_id u0 \<and> type u = type u0"
  by (cases "nickname u0") (auto simp: fix_nickname_def split: if_splits)

lemma OAuthUser_save_row:
  assumes "OAuthUser_save e u w = Inr (j, w')" and "pk u = Some i"
  shows "j = i \<and> (\<exists>row. oauth_users w' i = Some row
           \<and> picture row = to_python e (picture u) \<and> metadata row = to_python e (metadata u)
           \<and> nickname row = to_python e (nickname u) \<and> token row = to_python e (token u))"
  using assms by (auto simp: OAuthUser_save_def Let_def split: if_splits)

lemma link_by_email_saves:
  assumes "link_by_email e w st user = Inr (a, w')"
  shows "\<exists>w1 j w2. account_for e w st user = Inr (a, w1)
           \<and> OAuthUser_save e (user\<lparr>author_id := Some a\<rparr>) w1 = Inr (j, w2) \<and> w' = w2\<lparr>session := Some a\<rparr>"
  using assms unfolding link_by_email_def and_then_Inr
  by (elim exE conjE) (auto simp: and_then_Inr split: prod.splits)

lemma WB_user_picture:
  "WB_user e tok rsp = Inr u \<Longrightarrow> metadata u = JStr rsp \<and> WB_get_picture e rsp = Inr (picture u)"
  unfolding WB_user_def WB_get_picture_def and_then_Inr
  by (elim exE conjE) (auto simp: and_then_def)

lemma Google_user_picture:
  "Google_user e tok rsp = Inr u \<Longrightarrow> metadata u = JStr rsp \<and> Google_get_picture e rsp = Inr (picture u)"
  unfolding Google_user_def Google_get_picture_def and_then_Inr
  by (elim exE conjE) (auto simp: and_then_def)

lemma GitHub_user_picture:
  "GitHub_user e tok rsp = Inr u \<Longrightarrow> metadata u = JStr rsp \<and> GitHub_get_picture e rsp = Inr (picture u)"
  unfolding GitHub_user_def GitHub_get_picture_def and_then_Inr
  by (elim exE conjE) (auto simp: and_then_def)

lemma FaceBook_user_picture:
  "FaceBook_user e tok rsp = Inr u \<Longrightarrow> picture u \<noteq> JNull \<Longrightarrow>
   metadata u = JStr rsp \<and> FaceBook_get_picture e rsp = Inr (picture u)"
  unfolding FaceBook_user_def FaceBook_get_picture_def and_then_Inr
  by (elim exE conjE) (auto simp: and_then_def split: if_splits)

lemma QQ_user_picture:
  "QQ_user e tok oid rsp = Inr u \<Longrightarrow> picture u \<noteq> JNull \<Longrightarrow>
   metadata u = JStr rsp \<and> QQ_get_picture e rsp = Inr (picture u)"
  unfolding QQ_user_def QQ_get_picture_def and_then_Inr
  by (elim exE conjE) (auto simp: and_then_def split: if_splits)

lemma WB_userinfo_Some:
  "WB_get_oauth_userinfo e m h = (Inr (Some u), m', h') \<Longrightarrow> \<exists>tok rsp. WB_user e tok rsp = Inr u"
  by (cases "do_request h"; cases "fst (do_request h)")
     (auto simp: WB_get_oauth_userinfo_def split: if_splits sum.splits bool.splits option.splits)

lemma Google_userinfo_Some:
  "Google_get_oauth_userinfo e m h = (Inr (Some u), m', h') \<Longrightarrow> \<exists>tok rsp. Google_user e tok rsp = Inr u"
  by (cases "do_request h"; cases "fst (do_request h)")
     (auto simp: Google_get_oauth_userinfo_def split: if_splits sum.splits bool.splits option.splits)

lemma GitHub_userinfo_Some:
  "GitHub_get_oauth_userinfo e m h = (Inr (Some u), m', h') \<Longrightarrow> \<exists>tok rsp. GitHub_user e tok rsp = Inr u"
  by (cases "do_request h"; cases "fst (do_request h)")
     (auto simp: GitHub_get_oauth_userinfo_def split: if_splits sum.splits bool.splits option.splits)

lemma FaceBook_userinfo_Some:
  "FaceBook_get_oauth_userinfo e m h = (Inr (Some u), m', h') \<Longrightarrow> \<exists>tok rsp. FaceBook_user e tok rsp = Inr u"
  by (cases "do_request h"; cases "fst (do_request h)")
     (auto simp: FaceBook_get_oauth_userinfo_def split: if_splits sum.splits bool.splits option.splits)

lemma QQ_userinfo_Some:
  "QQ_get_oauth_userinfo e m h = (Inr (Some u), m', h') \<Longrightarrow> \<exists>tok oid rsp. QQ_user e tok oid rsp = Inr u"
proof -
  assume a: "QQ_get_oauth_userinfo e m h = (Inr (Some u), m', h')"
  obtain r m1 h1 where o: "QQ_get_open_id e m h = (r, m1, h1)" by (cases "QQ_get_open_id e m h") auto
  obtain r2 h2 where d: "do_request h1 = (r2, h2)" by (cases "do_request h1") auto
  from a o d show ?thesis
    by (cases r; cases r2) (auto simp: QQ_get_oauth_userinfo_def split: option.splits if_splits sum.splits)
qed

subsection \<open>The redirect target\<close>

text \<open>
  Claim C3 says that \<open>get_redirecturl\<close> never returns a target on another host. The
  comparison deletes every occurrence of \<open>www.\<close> from the host, not only a leading
  one: with the site \<open>example.com\<close>, the URL \<open>http://exawww.mple.com/\<close> (a host under
  \<open>mple.com\<close>) is parsed to the host \<open>exawww.mple.com\<close> and is returned as the target.
\<close>

theorem get_redirecturl_returns_offsite_url:
  "urlsplit e (lit ''http://exawww.mple.com/'') = Some (lit ''http'', lit ''exawww.mple.com'')
   \<and> get_redirecturl (urlsplit e) (lit ''example.com'') (Some (lit ''http://exawww.mple.com/''))
       = Some (lit ''http://exawww.mple.com/'')"
  by code_simp

text \<open>
  The parser on some other addresses: a scheme without a host, a scheme in capitals, an
  IPv6 host, square brackets without an IP address and a host whose NFKC form holds a
  slash (the last two raise \<open>ValueError\<close>, and so does the login view with such a
  \<open>next_url\<close>).
\<close>

lemma urlsplit_examples:
  "urlsplit sample_env (lit ''javascript:alert(1)'') = Some (lit ''javascript'', [])
   \<and> urlsplit sample_env (lit ''HTTP://Example.com/x'') = Some (lit ''http'', lit ''Example.com'')
   \<and> urlsplit sample_env (lit ''http://[::1]:8000/'') = Some (lit ''http'', lit ''[::1]:8000'')
   \<and> urlsplit sample_env (lit ''http://[example.com]/'') = None
   \<and> urlsplit sample_env (lit ''http://'' @ [0x2100] @ lit ''.example.com/'') = None
   \<and> oauthlogin sample_env empty_world
         \<lparr>GET_type = Some (lit ''weibo''), GET_code = None, GET_next_url = Some (lit ''http://[example.com]/''),
          stamp = lit ''260101093000''\<rparr>
       = Raised ValueError"
  by code_simp

text \<open>
  The registry compares names in lower case as \<open>str.lower\<close> gives it: the type
  \<open>facebooK\<close> written with the Kelvin sign finds the Facebook adapter.
\<close>

lemma kelvin_sign_finds_adapter:
  "get_manager_by_type sample_env empty_world (lit ''faceboo'' @ [0x212A])
     = Some (new_manager empty_world FaceBookOauthManager)"
  by code_simp

subsection \<open>The token exchange\<close>

text \<open>
  Claim C7 says that every adapter's \<open>get_access_token_by_code\<close> raises
  \<open>OAuthAccessTokenException\<close> when the answer has no access token. The QQ adapter, given
  QQ's error answer (not empty, no \<open>access_token\<close> key), returns \<open>None\<close> and raises nothing.
\<close>

theorem QQ_missing_token_returns_None:
  "sample_parse_qs answer_qq_error = []
   \<and> get_access_token_by_code sample_env (new_manager empty_world QQOauthManager) [Some answer_qq_error]
       = (Inr RNone, new_manager empty_world QQOauthManager, [])"
  by code_simp

text \<open>
  The three adapters that parse JSON, and GitHub, raise the exception when the parsed
  answer has no token; the QQ adapter returns \<open>None\<close> for every non-empty answer without
  one.
\<close>

lemma json_adapters_raise_without_token:
  assumes "json_loads e rsp = Some (JObj kvs)" and "lit ''access_token'' \<notin> set (map fst kvs)"
    and "kind m = WBOauthManager \<or> kind m = GoogleOauthManager \<or> kind m = FaceBookOauthManager"
  shows "get_access_token_by_code e m (Some rsp # h) = (Inl (OAuthAccessTokenException rsp), m, h)"
  using assms
  by (auto simp: get_access_token_by_code_def WB_get_access_token_by_code_def
      Google_get_access_token_by_code_def FaceBook_get_access_token_by_code_def loads_def and_then_def)

lemma GitHub_raises_without_token:
  assumes "lit ''access_token'' \<notin> set (map fst (parse_qs e rsp))" and "kind m = GitHubOauthManager"
  shows "get_access_token_by_code e m (Some rsp # h) = (Inl (OAuthAccessTokenException rsp), m, h)"
  using assms by (simp add: get_access_token_by_code_def GitHub_get_access_token_by_code_def Let_def)

lemma QQ_returns_None_without_token:
  assumes "lit ''access_token'' \<notin> set (map fst (parse_qs e rsp))" and "rsp \<noteq> []" and "kind m = QQOauthManager"
  shows "get_access_token_by_code e m (Some rsp # h) = (Inr RNone, m, h)"
  using assms by (simp add: get_access_token_by_code_def QQ_get_access_token_by_code_def Let_def)

text \<open>
  Claim C4 says that a callback whose token exchange fails with
  \<open>OAuthAccessTokenException\<close> is answered by a redirect back to the authorization URL.
  The view catches that exception first and redirects to the home path: for Weibo's
  error answer the exchange raises it, the answer is the redirect to \<open>/\<close>, and the
  authorization URL is another address.
\<close>

theorem token_exception_redirects_home:
  "get_manager_by_type sample_env empty_world (lit ''weibo'') = Some (new_manager empty_world WBOauthManager)
   \<and> fst (get_access_token_by_code sample_env (new_manager empty_world WBOauthManager) [Some answer_token_error])
        = Inl (OAuthAccessTokenException answer_token_error)
   \<and> fst (authorize sample_env empty_world (callback_request (lit ''weibo'')) [Some answer_token_error])
        = HttpResponseRedirect (lit ''/'')
   \<and> HttpResponseRedirect (lit ''/'')
        \<noteq> HttpResponseRedirect (get_authorization_url sample_env (new_manager empty_world WBOauthManager) (lit ''/''))"
  by code_simp

text \<open>
  Claim C4 as amended: when the token exchange raises \<open>OAuthAccessTokenException\<close> the
  callback redirects to the home path \<open>/\<close> and changes nothing. It redirects back to the
  authorization URL (and changes nothing) when the exchange raises any other exception or
  returns an empty value.
\<close>

theorem token_exchange_failure_redirects:
  assumes "GET_type req = Some ty" and "ty \<noteq> []" and "get_manager_by_type e w ty = Some m"
    and "get_access_token_by_code e m h = (r, m1, h1)"
  shows "(r = Inl (OAuthAccessTokenException msg) \<longrightarrow> authorize e w req h = (HttpResponseRedirect (lit ''/''), w))
    \<and> (((r = Inl ex \<and> (\<forall>t. ex \<noteq> OAuthAccessTokenException t)) \<or> (r = Inr v \<and> \<not> rsp_truthy v))
         \<and> get_redirecturl (urlsplit e) (site_domain e) (GET_next_url req) = Some nexturl
       \<longrightarrow> authorize e w req h = (HttpResponseRedirect (get_authorization_url e m1 nexturl), w))"
proof (intro conjI impI)
  assume "r = Inl (OAuthAccessTokenException msg)"
  with assms show "authorize e w req h = (HttpResponseRedirect (lit ''/''), w)"
    by (simp add: authorize_def)
next
  assume a: "((r = Inl ex \<and> (\<forall>t. ex \<noteq> OAuthAccessTokenException t)) \<or> (r = Inr v \<and> \<not> rsp_truthy v))
         \<and> get_redirecturl (urlsplit e) (site_domain e) (GET_next_url req) = Some nexturl"
  then consider (other) "r = Inl ex" "\<forall>t. ex \<noteq> OAuthAccessTokenException t" | (empty) "r = Inr v" "\<not> rsp_truthy v"
    by blast
  then show "authorize e w req h = (HttpResponseRedirect (get_authorization_url e m1 nexturl), w)"
  proof cases
    case other
    with assms a show ?thesis
      by (cases ex) (simp_all add: authorize_def)
  next
    case empty
    with assms a show ?thesis
      by (simp add: authorize_def)
  qed
qed

theorem token_exchange_failure_redirects_witness:
  "authorize sample_env empty_world (callback_request (lit ''weibo'')) [Some answer_token_error]
     = (HttpResponseRedirect (lit ''/''), empty_world)
   \<and> authorize sample_env empty_world (callback_request (lit ''qq'')) [Some answer_qq_error]
     = (HttpResponseRedirect (get_authorization_url sample_env (new_manager empty_world QQOauthManager) (lit ''/'')), empty_world)"
proof -
  have t: "GET_type (callback_request (lit ''weibo'')) = Some (lit ''weibo'')" by code_simp
  have n: "lit ''weibo'' \<noteq> []" by simp
  have m: "get_manager_by_type sample_env empty_world (lit ''weibo'') = Some (new_manager empty_world WBOauthManager)" by code_simp
  have x: "get_access_token_by_code sample_env (new_manager empty_world WBOauthManager) [Some answer_token_error]
      = (Inl (OAuthAccessTokenException answer_token_error), new_manager empty_world WBOauthManager, [])" by code_simp
  have t2: "GET_type (callback_request (lit ''qq'')) = Some (lit ''qq'')" by code_simp
  have n2: "lit ''qq'' \<noteq> []" by simp
  have m2: "get_manager_by_type sample_env empty_world (lit ''qq'') = Some (new_manager empty_world QQOauthManager)" by code_simp
  have x2: "get_access_token_by_code sample_env (new_manager empty_world QQOauthManager) [Some answer_qq_error]
      = (Inr RNone, new_manager empty_world QQOauthManager, [])" by code_simp
  have f: "\<not> rsp_truthy RNone" by simp
  have u: "get_redirecturl (urlsplit sample_env) (site_domain sample_env) (GET_next_url (callback_request (lit ''qq''))) = Some (lit ''/'')"
    by code_simp
  from token_exchange_failure_redirects[OF t n m x, of answer_token_error]
  have a: "authorize sample_env empty_world (callback_request (lit ''weibo'')) [Some answer_token_error]
     = (HttpResponseRedirect (lit ''/''), empty_world)" by blast
  from token_exchange_failure_redirects[OF t2 n2 m2 x2, of _ _ RNone "lit ''/''"] f u
  have b: "authorize sample_env empty_world (callback_request (lit ''qq'')) [Some answer_qq_error]
     = (HttpResponseRedirect (get_authorization_url sample_env (new_manager empty_world QQOauthManager) (lit ''/'')), empty_world)"
    by blast
  from a b show ?thesis by blast
qed

subsection \<open>The linking state machine\<close>

text \<open>
  Claim C1 says that an identity whose provider profile has no email is linked only by
  the confirmation link, and that a repeated callback after the email form must not
  link it. Here a Weibo callback without email stores the identity unlinked, the form
  stores \<open>b@y.com\<close> on it, and a second callback with the same answers, with no visit of
  the confirmation link, creates the account for \<open>b@y.com\<close>, links the identity to it and
  logs it in: the view reads the email of the stored row, not the profile's.
\<close>

theorem callback_after_email_form_links:
  "(let w1 = snd (authorize sample_env empty_world (callback_request (lit ''weibo'')) (weibo_answers answer_token_new));
        w2 = snd (form_valid sample_env w1 (lit ''b@y.com'') (Some 1));
        (r3, w3) = authorize sample_env w2 (callback_request (lit ''weibo'')) (weibo_answers answer_token_new)
    in map_option author_id (oauth_users w1 1) = Some None
     \<and> map_option email (oauth_users w1 1) = Some JNull
     \<and> map_option author_id (oauth_users w2 1) = Some None
     \<and> r3 = HttpResponseRedirect (lit ''/'')
     \<and> map_option author_id (oauth_users w3 1) = Some (Some 1)
     \<and> map_option user_email (users w3 1) = Some (lit ''b@y.com'')
     \<and> session w3 = Some 1)"
  by code_simp

text \<open>
  Claim C2 says that repeated callbacks leave at most one stored identity per provider
  type and external id. The adapter is found by comparing the \<open>type\<close> parameter in lower
  case, but the stored row is looked up under the parameter as it was sent, while the
  adapter stores its own lower-case name: after a callback with \<open>type=weibo\<close> and one
  with \<open>type=WEIBO\<close> for the same Weibo user, two rows hold the type \<open>weibo\<close> and the
  external id \<open>42\<close>.
\<close>

theorem case_variant_type_duplicates_identity:
  "(let w1 = snd (authorize sample_env empty_world (callback_request (lit ''weibo'')) (weibo_answers answer_token_new));
        w2 = snd (authorize sample_env w1 (callback_request (lit ''WEIBO'')) (weibo_answers answer_token_new))
    in map_option (\<lambda>r. (type r, openid r)) (oauth_users w2 1) = Some (lit ''weibo'', JStr (lit ''42''))
     \<and> map_option (\<lambda>r. (type r, openid r)) (oauth_users w2 2) = Some (lit ''weibo'', JStr (lit ''42'')))"
  by code_simp

text \<open>
  What does hold of callbacks. A callback whose profile has no email and whose stored
  row, if any, has none creates no account and logs nobody in.
\<close>

lemma OAuthUser_save_users:
  "OAuthUser_save e u w = Inr (j, w') \<Longrightarrow> users w' = users w \<and> session w' = session w"
  by (auto simp: OAuthUser_save_def Let_def split: if_splits)

lemma callback_without_email_links_nothing:
  assumes "\<not> py_truthy (email u0)"
    and "\<And>temp. OAuthUser_get e w ty (openid u0) = Inr (Some temp) \<Longrightarrow> \<not> py_truthy (email temp)"
  shows "users (snd (authorize_user e w ty nexturl st u0)) = users w
       \<and> session (snd (authorize_user e w ty nexturl st u0)) = session w"
proof (cases "fix_nickname st u0")
  case (Inl ex)
  then show ?thesis by (simp add: authorize_user_def and_then_def)
next
  case (Inr u)
  note f = fix_nickname_fields[OF Inr]
  show ?thesis
  proof (cases "OAuthUser_get e w ty (openid u0)")
    case (Inl ex)
    with Inr f show ?thesis by (simp add: authorize_user_def and_then_def existing_or_fetched_def)
  next
    case found: (Inr t)
    define user1 where "user1 = (case t of None \<Rightarrow> u
       | Some temp \<Rightarrow> temp\<lparr>picture := picture u, metadata := metadata u, nickname := nickname u\<rparr>)"
    define user where "user = (if ty = lit ''facebook'' then user1\<lparr>token := JStr []\<rparr> else user1)"
    have ex: "and_then (fix_nickname st u0) (existing_or_fetched e w ty) = Inr user1"
      using Inr found f by (simp add: and_then_def existing_or_fetched_def user1_def split: option.splits)
    have "\<not> py_truthy (email user1)"
      using assms f found by (cases t) (simp_all add: user1_def)
    then have no: "\<not> py_truthy (email user)" by (simp add: user_def)
    show ?thesis
    proof (cases "OAuthUser_save e user w")
      case (Inl ex')
      with ex no show ?thesis by (simp add: authorize_user_def Let_def user_def)
    next
      case (Inr jw)
      obtain j w1 where jw: "jw = (j, w1)" by (cases jw) auto
      from OAuthUser_save_users[OF Inr[unfolded jw]] ex no Inr jw show ?thesis
        by (simp add: authorize_user_def Let_def user_def)
    qed
  qed
qed

text \<open>
  For a stored identity that is linked to an existing account, neither a callback that
  finds it nor its confirmation link creates an account.
\<close>

lemma linked_callback_creates_no_account:
  assumes found: "OAuthUser_get e w ty (openid u0) = Inr (Some temp)"
    and linked: "author_id temp = Some a" "users w a = Some b"
  shows "users (snd (authorize_user e w ty nexturl st u0)) = users w"
proof (cases "fix_nickname st u0")
  case (Inl ex)
  then show ?thesis by (simp add: authorize_user_def and_then_def)
next
  case (Inr u)
  note f = fix_nickname_fields[OF Inr]
  define user1 where "user1 = temp\<lparr>picture := picture u, metadata := metadata u, nickname := nickname u\<rparr>"
  define user where "user = (if ty = lit ''facebook'' then user1\<lparr>token := JStr []\<rparr> else user1)"
  have ex: "and_then (fix_nickname st u0) (existing_or_fetched e w ty) = Inr user1"
    using Inr found f by (simp add: and_then_def existing_or_fetched_def user1_def)
  have au: "author_id user = Some a" using linked by (simp add: user_def user1_def)
  with linked have acc: "account_for e w st user = Inr (a, w)" by (simp add: account_for_def)
  show ?thesis
  proof (cases "py_truthy (email user)")
    case True
    show ?thesis
    proof (cases "link_by_email e w st user")
      case (Inl ex')
      with ex True show ?thesis by (simp add: authorize_user_def Let_def user_def)
    next
      case link: (Inr aw)
      obtain a' w1 where aw: "aw = (a', w1)" by (cases aw) auto
      from link_by_email_saves[OF link[unfolded aw]] acc obtain j w2 where
        "OAuthUser_save e (user\<lparr>author_id := Some a'\<rparr>) w = Inr (j, w2)" "w1 = w2\<lparr>session := Some a'\<rparr>"
        by auto
      with OAuthUser_save_users[of e "user\<lparr>author_id := Some a'\<rparr>" w j w2] have "users w1 = users w" by simp
      with ex True link aw show ?thesis by (simp add: authorize_user_def Let_def user_def split: sum.splits)
    qed
  next
    case False
    show ?thesis
    proof (cases "OAuthUser_save e user w")
      case (Inl ex')
      with ex False show ?thesis by (simp add: authorize_user_def Let_def user_def)
    next
      case save: (Inr jw)
      obtain j w1 where jw: "jw = (j, w1)" by (cases jw) auto
      from OAuthUser_save_users[OF save[unfolded jw]] ex False save jw show ?thesis
        by (simp add: authorize_user_def Let_def user_def)
    qed
  qed
qed

lemma linked_confirmation_creates_no_account:
  assumes row: "oauth_users w i = Some r" and linked: "author_id r = Some a" "users w a = Some b"
  shows "users (snd (emailconfirm e w st i sign)) = users w"
proof (cases "confirm_link e w st r")
  case (Inl ex)
  with row show ?thesis by (simp add: emailconfirm_def)
next
  case (Inr aw)
  obtain a' w1 where aw: "aw = (a', w1)" by (cases aw) auto
  from linked have "confirmed_account e w st r = Inr (a, w)" by (simp add: confirmed_account_def)
  with Inr aw obtain j where "OAuthUser_save e (r\<lparr>author_id := Some a\<rparr>) w = Inr (j, w1)"
    by (auto simp: confirm_link_def and_then_Inr)
  from OAuthUser_save_users[OF this] row Inr aw show ?thesis by (simp add: emailconfirm_def)
qed

text \<open>
  With the \<open>type\<close> parameter of every callback in lower case, the lookup under the
  parameter and the adapter's own name agree, and every run of callbacks, email forms and
  confirmation links keeps one row per type and external id.
\<close>

lemma is_text_to_python: "is_text (to_python e v)"
  by (cases v) (simp_all add: to_python_def is_text_def)

lemma is_JStr_to_python: "to_python e v \<noteq> JNull \<Longrightarrow> is_JStr (to_python e v)"
  by (cases v) (simp_all add: to_python_def is_JStr_def)

lemma OAuthUser_save_keeps_invariants:
  assumes rs: "rows_stored w" and un: "unique_identity w" and fit: "fits e w u"
    and save: "OAuthUser_save e u w = Inr (j, w')"
  shows "rows_stored w' \<and> unique_identity w'"
proof -
  define row where "row = u\<lparr>pk := Some j, openid := to_python e (openid u), nickname := to_python e (nickname u),
       token := to_python e (token u), picture := to_python e (picture u),
       email := to_python e (email u), metadata := to_python e (metadata u)\<rparr>"
  from save have nn: "to_python e (openid u) \<noteq> JNull" "to_python e (nickname u) \<noteq> JNull"
    by (auto simp: OAuthUser_save_def split: if_splits)
  from save have j: "j = (case pk u of None \<Rightarrow> next_oauth_id w | Some k \<Rightarrow> k)"
    and tab: "oauth_users w' = (oauth_users w)(j \<mapsto> row)"
    and nxt: "next_oauth_id w' = (case pk u of None \<Rightarrow> Suc (next_oauth_id w) | Some k \<Rightarrow> next_oauth_id w)"
    by (auto simp: OAuthUser_save_def Let_def row_def split: if_splits)
  have st: "stored_row j row"
    using nn by (simp add: stored_row_def row_def is_text_to_python is_JStr_to_python)
  have key: "type row = type u" "openid row = to_python e (openid u)" by (simp_all add: row_def)
  have jlt: "j < next_oauth_id w'"
  proof (cases "pk u")
    case None
    with j nxt show ?thesis by simp
  next
    case (Some k)
    with fit obtain r0 where "oauth_users w k = Some r0" by (auto simp: fits_def)
    with rs have "k < next_oauth_id w" by (auto simp: rows_stored_def)
    with Some j nxt show ?thesis by simp
  qed
  have le: "next_oauth_id w \<le> next_oauth_id w'" using nxt by (cases "pk u") simp_all
  have others: "\<And>i r. i \<noteq> j \<Longrightarrow> oauth_users w i = Some r \<Longrightarrow>
      \<not> (type r = type u \<and> openid r = to_python e (openid u))"
  proof (cases "pk u")
    case None
    fix i r assume "i \<noteq> j" "oauth_users w i = Some r"
    with fit None show "\<not> (type r = type u \<and> openid r = to_python e (openid u))"
      by (auto simp: fits_def)
  next
    case (Some k)
    fix i r assume ij: "i \<noteq> j" and ir: "oauth_users w i = Some r"
    from fit Some obtain r0 where r0: "oauth_users w k = Some r0" "type u = type r0" "to_python e (openid u) = openid r0"
      by (auto simp: fits_def)
    from Some j have "j = k" by simp
    show "\<not> (type r = type u \<and> openid r = to_python e (openid u))"
    proof
      assume "type r = type u \<and> openid r = to_python e (openid u)"
      with r0 ir un have "i = k" unfolding unique_identity_def by metis
      with ij \<open>j = k\<close> show False by simp
    qed
  qed
  have "rows_stored w'"
    unfolding rows_stored_def
  proof (intro allI impI)
    fix i r assume a: "oauth_users w' i = Some r"
    show "stored_row i r \<and> i < next_oauth_id w'"
    proof (cases "i = j")
      case True
      with a tab st jlt show ?thesis by simp
    next
      case False
      with a tab have "oauth_users w i = Some r" by simp
      with rs have "stored_row i r" "i < next_oauth_id w" by (auto simp: rows_stored_def)
      with le show ?thesis by simp
    qed
  qed
  moreover have "unique_identity w'"
    unfolding unique_identity_def
  proof (intro allI impI, elim conjE)
    fix i k r r'
    assume a: "oauth_users w' i = Some r" and b: "oauth_users w' k = Some r'"
      and t: "type r = type r'" and o: "openid r = openid r'"
    show "i = k"
    proof (cases "i = j"; cases "k = j")
      assume "i = j" "k = j" then show ?thesis by simp
    next
      assume ij: "i = j" and kj: "k \<noteq> j"
      with a tab have "r = row" by simp
      moreover from kj b tab have "oauth_users w k = Some r'" by simp
      ultimately show ?thesis using others[OF kj] key t o by auto
    next
      assume ij: "i \<noteq> j" and kj: "k = j"
      with b tab have "r' = row" by simp
      moreover from ij a tab have "oauth_users w i = Some r" by simp
      ultimately show ?thesis using others[OF ij] key t o by auto
    next
      assume ij: "i \<noteq> j" and kj: "k \<noteq> j"
      with a b tab have "oauth_users w i = Some r" "oauth_users w k = Some r'" by simp_all
      with un t o show ?thesis unfolding unique_identity_def by blast
    qed
  qed
  ultimately show ?thesis ..
qed

lemma same_identities:
  assumes "oauth_users w1 = oauth_users w" and "next_oauth_id w1 = next_oauth_id w"
  shows "rows_stored w1 = rows_stored w" and "unique_identity w1 = unique_identity w"
    and "fits e w1 u = fits e w u"
  using assms by (simp_all add: rows_stored_def unique_identity_def fits_def)

lemma BlogUser_get_or_create_identities:
  "BlogUser_get_or_create e w v = Inr (a, c, w1) \<Longrightarrow>
     oauth_users w1 = oauth_users w \<and> next_oauth_id w1 = next_oauth_id w"
  by (auto simp: BlogUser_get_or_create_def split: option.splits list.splits if_splits)

lemma BlogUser_save_identities:
  "BlogUser_save w a name src = Inr w1 \<Longrightarrow>
     oauth_users w1 = oauth_users w \<and> next_oauth_id w1 = next_oauth_id w"
  by (auto simp: BlogUser_save_def split: option.splits if_splits)

lemma account_for_identities:
  assumes "account_for e w st user = Inr (a, w1)"
  shows "oauth_users w1 = oauth_users w \<and> next_oauth_id w1 = next_oauth_id w"
proof (cases "case author_id user of None \<Rightarrow> None | Some a \<Rightarrow> (case users w a of None \<Rightarrow> None | Some b \<Rightarrow> Some a)")
  case (Some a2)
  with assms show ?thesis by (simp add: account_for_def)
next
  case None
  with assms obtain a3 c w3 where g: "BlogUser_get_or_create e w (email user) = Inr (a3, c, w3)"
    and rest: "(if c then and_then (username_for e w3 st (nickname user)) (\<lambda>name.
                 and_then (BlogUser_save w3 a3 name (lit ''authorize'')) (\<lambda>w2. Inr (a3, w2)))
            else Inr (a3, w3)) = Inr (a, w1)"
    by (auto simp: account_for_def and_then_Inr)
  note g1 = BlogUser_get_or_create_identities[OF g]
  show ?thesis
  proof (cases c)
    case False
    with rest g1 show ?thesis by simp
  next
    case True
    with rest obtain name where "BlogUser_save w3 a3 name (lit ''authorize'') = Inr w1"
      by (auto simp: and_then_Inr)
    from BlogUser_save_identities[OF this] g1 show ?thesis by simp
  qed
qed

lemma confirmed_account_identities:
  assumes "confirmed_account e w st user = Inr (a, w1)"
  shows "oauth_users w1 = oauth_users w \<and> next_oauth_id w1 = next_oauth_id w"
proof (cases "author_id user")
  case (Some a2)
  with assms show ?thesis by (auto simp: confirmed_account_def split: option.splits)
next
  case None
  with assms obtain a3 c w3 where g: "BlogUser_get_or_create e w (email user) = Inr (a3, c, w3)"
    and rest: "(if c then (case nickname user of
                    JStr s \<Rightarrow>
                      and_then (BlogUser_save w3 a3
                                  (if str_strip s \<noteq> [] then str_strip s else default_nickname st)
                                  (lit ''emailconfirm''))
                        (\<lambda>w2. Inr (a3, w2))
                  | _ \<Rightarrow> Inl AttributeError)
            else Inr (a3, w3)) = Inr (a, w1)"
    by (auto simp: confirmed_account_def and_then_Inr)
  note g1 = BlogUser_get_or_create_identities[OF g]
  show ?thesis
  proof (cases c)
    case False
    with rest g1 show ?thesis by simp
  next
    case True
    with rest obtain name where "BlogUser_save w3 a3 name (lit ''emailconfirm'') = Inr w1"
      by (cases "nickname user") (auto simp: and_then_Inr)
    from BlogUser_save_identities[OF this] g1 show ?thesis by simp
  qed
qed

lemma fits_author [simp]: "fits e w (u\<lparr>author_id := x\<rparr>) = fits e w u"
  by (simp add: fits_def)

lemma fits_token [simp]: "fits e w (u\<lparr>token := x\<rparr>) = fits e w u"
  by (simp add: fits_def)

lemma fits_email [simp]: "fits e w (u\<lparr>email := x\<rparr>) = fits e w u"
  by (simp add: fits_def)

lemma session_identities [simp]:
  "rows_stored (w\<lparr>session := x\<rparr>) = rows_stored w" "unique_identity (w\<lparr>session := x\<rparr>) = unique_identity w"
  "rows_stored (w\<lparr>outbox := y\<rparr>) = rows_stored w" "unique_identity (w\<lparr>outbox := y\<rparr>) = unique_identity w"
  by (simp_all add: rows_stored_def unique_identity_def)

lemma link_by_email_keeps_invariants:
  assumes "rows_stored w" and "unique_identity w" and "fits e w user"
    and "link_by_email e w st user = Inr (a, w')"
  shows "rows_stored w' \<and> unique_identity w'"
proof -
  from link_by_email_saves[OF assms(4)] obtain w1 j w2 where
    acc: "account_for e w st user = Inr (a, w1)"
    and s: "OAuthUser_save e (user\<lparr>author_id := Some a\<rparr>) w1 = Inr (j, w2)" and w': "w' = w2\<lparr>session := Some a\<rparr>"
    by blast
  from account_for_identities[OF acc] have same: "oauth_users w1 = oauth_users w" "next_oauth_id w1 = next_oauth_id w"
    by simp_all
  from same_identities[OF same] assms(1-3)
  have "rows_stored w1" "unique_identity w1" "fits e w1 (user\<lparr>author_id := Some a\<rparr>)" by simp_all
  from OAuthUser_save_keeps_invariants[OF this s] w' show ?thesis by simp
qed

lemma confirm_link_keeps_invariants:
  assumes "rows_stored w" and "unique_identity w" and "fits e w user"
    and "confirm_link e w st user = Inr (a, w')"
  shows "rows_stored w' \<and> unique_identity w'"
proof -
  from assms(4) obtain w1 j where
    acc: "confirmed_account e w st user = Inr (a, w1)"
    and s: "OAuthUser_save e (user\<lparr>author_id := Some a\<rparr>) w1 = Inr (j, w')"
    unfolding confirm_link_def and_then_Inr by (auto simp: and_then_Inr)
  from confirmed_account_identities[OF acc] have same: "oauth_users w1 = oauth_users w" "next_oauth_id w1 = next_oauth_id w"
    by simp_all
  from same_identities[OF same] assms(1-3)
  have "rows_stored w1" "unique_identity w1" "fits e w1 (user\<lparr>author_id := Some a\<rparr>)" by simp_all
  from OAuthUser_save_keeps_invariants[OF this s] show ?thesis by simp
qed

lemma stored_row_fits:
  assumes "rows_stored w" and "oauth_users w i = Some r"
  shows "fits e w r" and "fits e w (r\<lparr>picture := p, metadata := m, nickname := n\<rparr>)"
proof -
  from assms have "stored_row i r" by (auto simp: rows_stored_def)
  then have "pk r = Some i" "to_python e (openid r) = openid r"
    by (simp_all add: stored_row_def to_python_JStr)
  with assms(2) show "fits e w r" and "fits e w (r\<lparr>picture := p, metadata := m, nickname := n\<rparr>)"
    by (simp_all add: fits_def)
qed

lemma OAuthUser_filter_member:
  "i \<in> set (OAuthUser_filter w P) \<Longrightarrow> \<exists>r. oauth_users w i = Some r \<and> P r"
  by (auto simp: OAuthUser_filter_def split: option.splits)

lemma OAuthUser_filter_empty:
  assumes "rows_stored w" and "OAuthUser_filter w P = []" and "oauth_users w i = Some r"
  shows "\<not> P r"
proof
  assume "P r"
  from assms(1,3) have "i < next_oauth_id w" by (auto simp: rows_stored_def)
  with assms(3) \<open>P r\<close> have "i \<in> set (OAuthUser_filter w P)" by (simp add: OAuthUser_filter_def)
  with assms(2) show False by simp
qed

lemma OAuthUser_get_result:
  assumes "rows_stored w" and "OAuthUser_get e w ty v = Inr t"
  shows "(t = None \<and> (\<forall>i r. oauth_users w i = Some r \<longrightarrow> \<not> (type r = ty \<and> openid r = to_python e v)))
       \<or> (\<exists>i temp. t = Some temp \<and> oauth_users w i = Some temp \<and> type temp = ty \<and> openid temp = to_python e v)"
proof (cases "OAuthUser_filter w (\<lambda>r. type r = ty \<and> openid r = to_python e v)")
  case Nil
  with assms(2) have "t = None" by (simp add: OAuthUser_get_def)
  with OAuthUser_filter_empty[OF assms(1) Nil] show ?thesis by blast
next
  case (Cons i rest)
  then have "i \<in> set (OAuthUser_filter w (\<lambda>r. type r = ty \<and> openid r = to_python e v))" by simp
  from OAuthUser_filter_member[OF this] obtain r where r: "oauth_users w i = Some r"
    "type r = ty" "openid r = to_python e v" by blast
  from assms(2) Cons have "rest = []" "t = oauth_users w i"
    by (cases rest; simp add: OAuthUser_get_def)+
  with r show ?thesis by auto
qed

lemma authorize_user_keeps_invariants:
  assumes rs: "rows_stored w" and un: "unique_identity w" and ty: "type u0 = ty" and fresh: "pk u0 = None"
  shows "rows_stored (snd (authorize_user e w ty nexturl st u0))
       \<and> unique_identity (snd (authorize_user e w ty nexturl st u0))"
proof (cases "and_then (fix_nickname st u0) (existing_or_fetched e w ty)")
  case (Inl ex)
  with rs un show ?thesis by (simp add: authorize_user_def)
next
  case (Inr user1)
  then obtain u where fx: "fix_nickname st u0 = Inr u" and ex: "existing_or_fetched e w ty u = Inr user1"
    by (auto simp: and_then_Inr)
  note f = fix_nickname_fields[OF fx]
  from ex obtain t where g: "OAuthUser_get e w ty (openid u) = Inr t"
    and u1: "user1 = (case t of None \<Rightarrow> u
        | Some temp \<Rightarrow> temp\<lparr>picture := picture u, metadata := metadata u, nickname := nickname u\<rparr>)"
    by (auto simp: existing_or_fetched_def split: sum.splits option.splits)
  have fit1: "fits e w user1"
  proof -
    from OAuthUser_get_result[OF rs g] show ?thesis
    proof
      assume "t = None \<and> (\<forall>i r. oauth_users w i = Some r \<longrightarrow> \<not> (type r = ty \<and> openid r = to_python e (openid u)))"
      with u1 f ty fresh show ?thesis by (simp add: fits_def)
    next
      assume "\<exists>i temp. t = Some temp \<and> oauth_users w i = Some temp \<and> type temp = ty \<and> openid temp = to_python e (openid u)"
      then obtain i temp where "t = Some temp" "oauth_users w i = Some temp" by blast
      with u1 stored_row_fits(2)[OF rs, of i temp e] show ?thesis by simp
    qed
  qed
  define user where "user = (if ty = lit ''facebook'' then user1\<lparr>token := JStr []\<rparr> else user1)"
  from fit1 have fit: "fits e w user" by (simp add: user_def)
  show ?thesis
  proof (cases "py_truthy (email user)")
    case True
    show ?thesis
    proof (cases "link_by_email e w st user")
      case (Inl ex')
      with Inr True rs un show ?thesis by (simp add: authorize_user_def Let_def user_def)
    next
      case link: (Inr aw)
      obtain a w1 where aw: "aw = (a, w1)" by (cases aw) auto
      from link_by_email_keeps_invariants[OF rs un fit link[unfolded aw]] Inr True link aw rs un
      show ?thesis by (simp add: authorize_user_def Let_def user_def split: sum.splits)
    qed
  next
    case False
    show ?thesis
    proof (cases "OAuthUser_save e user w")
      case (Inl ex')
      with Inr False rs un show ?thesis by (simp add: authorize_user_def Let_def user_def)
    next
      case save: (Inr jw)
      obtain j w1 where jw: "jw = (j, w1)" by (cases jw) auto
      from OAuthUser_save_keeps_invariants[OF rs un fit save[unfolded jw]] Inr False save jw
      show ?thesis by (simp add: authorize_user_def Let_def user_def)
    qed
  qed
qed

lemma form_valid_keeps_invariants:
  assumes rs: "rows_stored w" and un: "unique_identity w"
  shows "rows_stored (snd (form_valid e w addr oauthid)) \<and> unique_identity (snd (form_valid e w addr oauthid))"
proof (cases "OAuthUser_by_pk w oauthid")
  case None
  with rs un show ?thesis by (simp add: form_valid_def)
next
  case (Some ir)
  obtain i r where ir: "ir = (i, r)" by (cases ir) auto
  with Some have row: "oauth_users w i = Some r"
    by (auto simp: OAuthUser_by_pk_def split: option.splits if_splits)
  from stored_row_fits(1)[OF rs row, of e] have fit: "fits e w (r\<lparr>email := JStr addr\<rparr>)" by simp
  show ?thesis
  proof (cases "OAuthUser_save e (r\<lparr>email := JStr addr\<rparr>) w")
    case (Inl ex)
    with Some ir rs un show ?thesis by (simp add: form_valid_def)
  next
    case (Inr jw)
    obtain j w1 where jw: "jw = (j, w1)" by (cases jw) auto
    from OAuthUser_save_keeps_invariants[OF rs un fit Inr[unfolded jw]] Some ir Inr jw
    show ?thesis by (simp add: form_valid_def Let_def)
  qed
qed

lemma emailconfirm_keeps_invariants:
  assumes rs: "rows_stored w" and un: "unique_identity w"
  shows "rows_stored (snd (emailconfirm e w st i sign)) \<and> unique_identity (snd (emailconfirm e w st i sign))"
proof (cases "oauth_users w i")
  case None
  with rs un show ?thesis by (simp add: emailconfirm_def)
next
  case (Some r)
  from stored_row_fits(1)[OF rs Some, of e] have fit: "fits e w r" .
  show ?thesis
  proof (cases "confirm_link e w st r")
    case (Inl ex)
    with Some rs un show ?thesis by (simp add: emailconfirm_def)
  next
    case (Inr aw)
    obtain a w1 where aw: "aw = (a, w1)" by (cases aw) auto
    from confirm_link_keeps_invariants[OF rs un fit Inr[unfolded aw]] Some Inr aw rs un
    show ?thesis by (simp add: emailconfirm_def)
  qed
qed

lemma WB_user_fresh: "WB_user e tok rsp = Inr u \<Longrightarrow> pk u = None \<and> type u = ICON_NAME WBOauthManager"
  unfolding WB_user_def and_then_Inr by (elim exE conjE) (auto simp: new_OAuthUser_def)

lemma Google_user_fresh: "Google_user e tok rsp = Inr u \<Longrightarrow> pk u = None \<and> type u = ICON_NAME GoogleOauthManager"
  unfolding Google_user_def and_then_Inr by (elim exE conjE) (auto simp: new_OAuthUser_def)

lemma GitHub_user_fresh: "GitHub_user e tok rsp = Inr u \<Longrightarrow> pk u = None \<and> type u = ICON_NAME GitHubOauthManager"
  unfolding GitHub_user_def and_then_Inr by (elim exE conjE) (auto simp: new_OAuthUser_def)

lemma FaceBook_user_fresh: "FaceBook_user e tok rsp = Inr u \<Longrightarrow> pk u = None \<and> type u = ICON_NAME FaceBookOauthManager"
  unfolding FaceBook_user_def and_then_Inr by (elim exE conjE) (auto simp: new_OAuthUser_def)

lemma QQ_user_fresh: "QQ_user e tok oid rsp = Inr u \<Longrightarrow> pk u = None \<and> type u = ICON_NAME QQOauthManager"
  unfolding QQ_user_def and_then_Inr by (elim exE conjE) (auto simp: new_OAuthUser_def)

lemma fetched_user_fresh:
  assumes "get_oauth_userinfo e m h = (Inr (Some u), m', h')"
  shows "pk u = None \<and> type u = ICON_NAME (kind m)"
proof (cases "kind m")
  case WBOauthManager
  with assms have "WB_get_oauth_userinfo e m h = (Inr (Some u), m', h')" by (simp add: get_oauth_userinfo_def)
  then obtain tok rsp where "WB_user e tok rsp = Inr u" using WB_userinfo_Some by blast
  with WBOauthManager show ?thesis using WB_user_fresh by simp
next
  case GoogleOauthManager
  with assms have "Google_get_oauth_userinfo e m h = (Inr (Some u), m', h')" by (simp add: get_oauth_userinfo_def)
  then obtain tok rsp where "Google_user e tok rsp = Inr u" using Google_userinfo_Some by blast
  with GoogleOauthManager show ?thesis using Google_user_fresh by simp
next
  case GitHubOauthManager
  with assms have "GitHub_get_oauth_userinfo e m h = (Inr (Some u), m', h')" by (simp add: get_oauth_userinfo_def)
  then obtain tok rsp where "GitHub_user e tok rsp = Inr u" using GitHub_userinfo_Some by blast
  with GitHubOauthManager show ?thesis using GitHub_user_fresh by simp
next
  case FaceBookOauthManager
  with assms have "FaceBook_get_oauth_userinfo e m h = (Inr (Some u), m', h')" by (simp add: get_oauth_userinfo_def)
  then obtain tok rsp where "FaceBook_user e tok rsp = Inr u" using FaceBook_userinfo_Some by blast
  with FaceBookOauthManager show ?thesis using FaceBook_user_fresh by simp
next
  case QQOauthManager
  with assms have "QQ_get_oauth_userinfo e m h = (Inr (Some u), m', h')" by (simp add: get_oauth_userinfo_def)
  then obtain tok oid rsp where "QQ_user e tok oid rsp = Inr u" using QQ_userinfo_Some by blast
  with QQOauthManager show ?thesis using QQ_user_fresh by simp
qed

lemma WB_get_oauth_userinfo_kind: "WB_get_oauth_userinfo e m h = (r, m1, h1) \<Longrightarrow> m1 = m"
  by (cases "do_request h"; cases "fst (do_request h)")
     (auto simp: WB_get_oauth_userinfo_def split: if_splits sum.splits bool.splits)

lemma WB_token_kind: "WB_get_access_token_by_code e m h = (r, m1, h1) \<Longrightarrow> kind m1 = kind m"
proof -
  assume a: "WB_get_access_token_by_code e m h = (r, m1, h1)"
  obtain r0 h0 where d: "do_request h = (r0, h0)" by (cases "do_request h") auto
  show ?thesis
  proof (cases r0)
    case (Inl ex)
    with a d show ?thesis by (simp add: WB_get_access_token_by_code_def)
  next
    case (Inr rsp)
    show ?thesis
    proof (cases "and_then (loads e rsp) (\<lambda>obj. and_then (py_in (lit ''access_token'') obj) (\<lambda>has. Inr (obj, has)))")
      case (Inl ex)
      with a d Inr show ?thesis by (simp add: WB_get_access_token_by_code_def)
    next
      case oh: (Inr p)
      obtain obj has where p: "p = (obj, has)" by (cases p) auto
      show ?thesis
      proof (cases has)
        case False
        with a d Inr oh p show ?thesis by (simp add: WB_get_access_token_by_code_def)
      next
        case True
        show ?thesis
        proof (cases "py_getitem obj (lit ''access_token'')")
          case (Inl ex)
          with a d Inr oh p True show ?thesis by (simp add: WB_get_access_token_by_code_def)
        next
          case tok: (Inr t)
          show ?thesis
          proof (cases "py_getitem obj (lit ''uid'')")
            case (Inl ex)
            with a d Inr oh p True tok show ?thesis by (auto simp: WB_get_access_token_by_code_def Let_def)
          next
            case uid: (Inr v)
            define m2 where "m2 = m\<lparr>access_token := Bound (Some (py_str e t)), manager_openid := Bound (Some (py_str e v))\<rparr>"
            obtain r3 m3 h3 where g: "WB_get_oauth_userinfo e m2 h0 = (r3, m3, h3)"
              by (cases "WB_get_oauth_userinfo e m2 h0") auto
            from WB_get_oauth_userinfo_kind[OF g] have "m3 = m2" .
            with a d Inr oh p True tok uid g show ?thesis
              by (cases r3) (auto simp: WB_get_access_token_by_code_def Let_def m2_def split: option.splits)
          qed
        qed
      qed
    qed
  qed
qed

lemma Google_token_kind: "Google_get_access_token_by_code e m h = (r, m1, h1) \<Longrightarrow> kind m1 = kind m"
  by (cases "do_request h"; cases "fst (do_request h)")
     (auto simp: Google_get_access_token_by_code_def Let_def split: sum.splits prod.splits bool.splits)

lemma GitHub_token_kind: "GitHub_get_access_token_by_code e m h = (r, m1, h1) \<Longrightarrow> kind m1 = kind m"
  by (cases "do_request h"; cases "fst (do_request h)")
     (auto simp: GitHub_get_access_token_by_code_def Let_def split: option.splits list.splits if_splits)

lemma FaceBook_token_kind: "FaceBook_get_access_token_by_code e m h = (r, m1, h1) \<Longrightarrow> kind m1 = kind m"
  by (cases "do_request h"; cases "fst (do_request h)")
     (auto simp: FaceBook_get_access_token_by_code_def Let_def split: sum.splits prod.splits bool.splits)

lemma QQ_token_kind: "QQ_get_access_token_by_code e m h = (r, m1, h1) \<Longrightarrow> kind m1 = kind m"
  by (cases "do_request h"; cases "fst (do_request h)")
     (auto simp: QQ_get_access_token_by_code_def Let_def split: option.splits list.splits if_splits)

lemma get_access_token_by_code_kind:
  "get_access_token_by_code e m h = (r, m1, h1) \<Longrightarrow> kind m1 = kind m"
  by (cases "kind m")
     (simp_all add: get_access_token_by_code_def WB_token_kind Google_token_kind GitHub_token_kind
        FaceBook_token_kind QQ_token_kind)

lemma ICON_NAME_lower: "str_lower e (ICON_NAME k) = ICON_NAME k"
proof -
  have "list_all (\<lambda>k. str_lower e (ICON_NAME k) = ICON_NAME k) subclasses" by code_simp
  then show ?thesis by (cases k) (simp_all add: subclasses_def)
qed

lemma get_manager_by_type_name:
  assumes "get_manager_by_type e w ty = Some m"
  shows "str_lower e (ICON_NAME (kind m)) = str_lower e ty"
proof -
  let ?P = "\<lambda>m. str_lower e (ICON_NAME (kind m)) = str_lower e ty"
  from assms obtain ms where "filter ?P (get_oauth_apps e w) = m # ms"
    by (auto simp: get_manager_by_type_def split: list.splits)
  then have "m \<in> set (filter ?P (get_oauth_apps e w))" by simp
  then show ?thesis by simp
qed

lemma authorize_keeps_invariants:
  assumes rs: "rows_stored w" and un: "unique_identity w"
    and lc: "case GET_type req of None \<Rightarrow> True | Some ty \<Rightarrow> str_lower e ty = ty"
  shows "rows_stored (snd (authorize e w req h)) \<and> unique_identity (snd (authorize e w req h))"
proof (cases "GET_type req")
  case None
  with rs un show ?thesis by (simp add: authorize_def)
next
  case (Some ty)
  with lc have low: "str_lower e ty = ty" by simp
  show ?thesis
  proof (cases "ty = []")
    case True
    with Some rs un show ?thesis by (simp add: authorize_def)
  next
    case ne: False
    show ?thesis
    proof (cases "get_manager_by_type e w ty")
      case None
      with Some ne rs un show ?thesis by (simp add: authorize_def)
    next
      case mgr: (Some m)
      from get_manager_by_type_name[OF mgr] low ICON_NAME_lower[of e] have name: "ICON_NAME (kind m) = ty" by simp
      obtain r m1 h1 where tok: "get_access_token_by_code e m h = (r, m1, h1)"
        by (cases "get_access_token_by_code e m h") auto
      from get_access_token_by_code_kind[OF tok] have k1: "kind m1 = kind m" .
      obtain r2 m2 h2 where info: "get_oauth_userinfo e m1 h1 = (r2, m2, h2)"
        by (cases "get_oauth_userinfo e m1 h1") auto
      have unchanged_or_user:
        "snd (authorize e w req h) = w
         \<or> (\<exists>nexturl user. r2 = Inr (Some user)
              \<and> snd (authorize e w req h) = snd (authorize_user e w ty nexturl (stamp req) user))"
        using Some ne mgr tok info
        by (cases r; cases r2)
           (auto simp: authorize_def Let_def split: exn.splits option.splits if_splits sum.splits)
      then show ?thesis
      proof
        assume "snd (authorize e w req h) = w"
        with rs un show ?thesis by simp
      next
        assume "\<exists>nexturl user. r2 = Inr (Some user)
              \<and> snd (authorize e w req h) = snd (authorize_user e w ty nexturl (stamp req) user)"
        then obtain nexturl user where u: "r2 = Inr (Some user)"
          and eq: "snd (authorize e w req h) = snd (authorize_user e w ty nexturl (stamp req) user)"
          by blast
        from fetched_user_fresh[OF info[unfolded u]] k1 name
        have "type user = ty" "pk user = None" by simp_all
        from authorize_user_keeps_invariants[OF rs un this] eq show ?thesis by simp
      qed
    qed
  qed
qed

lemma step_keeps_invariants:
  assumes "rows_stored w" and "unique_identity w" and "lower_case_type e x"
  shows "rows_stored (step e w x) \<and> unique_identity (step e w x)"
  using assms
  by (cases x)
     (simp_all add: authorize_keeps_invariants form_valid_keeps_invariants emailconfirm_keeps_invariants)

lemma run_keeps_invariants:
  assumes "rows_stored w" and "unique_identity w" and "list_all (lower_case_type e) ops"
  shows "rows_stored (run e w ops) \<and> unique_identity (run e w ops)"
  using assms unfolding run_def
proof (induction ops arbitrary: w)
  case Nil
  then show ?case by simp
next
  case (Cons x xs)
  from step_keeps_invariants[OF Cons.prems(1,2), of e x] Cons.prems(3)
  have "rows_stored (step e w x)" "unique_identity (step e w x)" by simp_all
  from Cons.IH[OF this] Cons.prems(3) show ?case by simp
qed

lemma empty_world_invariants: "rows_stored empty_world \<and> unique_identity empty_world"
  by (simp add: rows_stored_def unique_identity_def empty_world_def)

subsection \<open>The confirmation link\<close>

text \<open>
  \<open>str\<close> of a number is one-to-one, so the texts hashed for two ids differ; and
  \<open>str.upper\<close> is one-to-one on hexadecimal digests.
\<close>

lemma str_of_nat_not_Nil: "str_of_nat n \<noteq> []"
  by (subst str_of_nat.simps) simp

lemma digit_char_inj: "digit_char a = digit_char b \<Longrightarrow> a = b"
  by (simp add: digit_char_def)

lemma str_of_nat_inj: "str_of_nat a = str_of_nat b \<Longrightarrow> a = b"
proof (induction a arbitrary: b rule: str_of_nat.induct)
  case (1 n)
  show ?case
  proof (cases "n < 10")
    case small: True
    show ?thesis
    proof (cases "b < 10")
      case True
      with small "1.prems" show ?thesis
        by (simp add: str_of_nat.simps[of n] str_of_nat.simps[of b] digit_char_def)
    next
      case False
      with small "1.prems" show ?thesis
        using str_of_nat_not_Nil[of "b div 10"]
        by (simp add: str_of_nat.simps[of n] str_of_nat.simps[of b])
    qed
  next
    case big: False
    show ?thesis
    proof (cases "b < 10")
      case True
      with big "1.prems" show ?thesis
        using str_of_nat_not_Nil[of "n div 10"]
        by (simp add: str_of_nat.simps[of n] str_of_nat.simps[of b])
    next
      case False
      with big "1.prems" have "str_of_nat (n div 10) = str_of_nat (b div 10)" and "n mod 10 = b mod 10"
        by (simp_all add: str_of_nat.simps[of n] str_of_nat.simps[of b] digit_char_def)
      with "1.IH"[OF big] have "n div 10 = b div 10" "n mod 10 = b mod 10" by simp_all
      then show ?thesis by (metis div_mult_mod_eq)
    qed
  qed
qed

lemma upper_char_hex: "is_hex_char c \<Longrightarrow> upper_char e c = [if 97 \<le> c then c - 32 else c]"
  by (auto simp: is_hex_char_def upper_char_def is_ascii_char_def)

lemma str_upper_hex: "list_all is_hex_char s \<Longrightarrow> str_upper e s = map (\<lambda>c. if 97 \<le> c then c - 32 else c) s"
  by (induction s) (simp_all add: str_upper_def upper_char_hex)

lemma str_upper_hex_inj:
  assumes "list_all is_hex_char s" and "list_all is_hex_char t" and "str_upper e s = str_upper e t"
  shows "s = t"
proof -
  from assms have "map (\<lambda>c. if 97 \<le> c then c - 32 else c) s = map (\<lambda>c. if 97 \<le> c then c - 32 else c) t"
    by (simp add: str_upper_hex)
  with assms(1,2) show ?thesis
  proof (induction s arbitrary: t)
    case Nil
    then show ?case by simp
  next
    case (Cons a s)
    then obtain b t' where t: "t = b # t'" by (cases t) auto
    with Cons.prems have "(if 97 \<le> a then a - 32 else a) = (if 97 \<le> b then b - 32 else b)"
      and hex: "is_hex_char a" "is_hex_char b" by simp_all
    then have "a = b" by (auto simp: is_hex_char_def split: if_splits)
    with Cons t show ?case by simp
  qed
qed

lemma str_upper_hexdigest_not_Nil: "is_hexdigest s \<Longrightarrow> str_upper e s \<noteq> []"
  by (simp add: is_hexdigest_def str_upper_hex)

lemma str_upper_Nil [simp]: "str_upper e [] = []"
  by (simp add: str_upper_def)
lemma emailconfirm_accepted:
  "(fst (emailconfirm e w st i sign) \<noteq> HttpResponseForbidden)
     = (sign \<noteq> [] \<and> str_upper e sign = str_upper e (get_sha256 e (SECRET_KEY e @ str_of_nat i @ SECRET_KEY e)))"
  by (auto simp: emailconfirm_def split: option.splits sum.splits prod.splits)

lemma emailconfirm_same_upper:
  assumes "str_upper e sign' = str_upper e sign" and "sign \<noteq> []" and "sign' \<noteq> []"
  shows "emailconfirm e w st i sign' = emailconfirm e w st i sign"
  using assms by (simp add: emailconfirm_def)

lemma changed_signature:
  assumes valid: "fst (emailconfirm e w st i sign) \<noteq> HttpResponseForbidden" and k: "k < length sign"
  shows "if upper_char e c = upper_char e (sign ! k)
         then emailconfirm e w st i (sign[k := c]) = emailconfirm e w st i sign
         else emailconfirm e w st i (sign[k := c]) = (HttpResponseForbidden, w)"
proof -
  from valid have ne: "sign \<noteq> []"
    and up: "str_upper e sign = str_upper e (get_sha256 e (SECRET_KEY e @ str_of_nat i @ SECRET_KEY e))"
    unfolding emailconfirm_accepted by blast+
  show ?thesis
  proof (cases "upper_char e c = upper_char e (sign ! k)")
    case True
    with k have same: "str_upper e (sign[k := c]) = str_upper e sign"
      using str_upper_mutated[OF k, of e c] by blast
    from ne have ne': "sign[k := c] \<noteq> []" by simp
    from emailconfirm_same_upper[OF same ne ne', of w st i] True show ?thesis by simp
  next
    case False
    with k have "str_upper e (sign[k := c]) \<noteq> str_upper e sign" using str_upper_mutated[OF k, of e c] by blast
    with up have "str_upper e (get_sha256 e (SECRET_KEY e @ str_of_nat i @ SECRET_KEY e)) \<noteq> str_upper e (sign[k := c])"
      by auto
    from emailconfirm_forbidden[OF this, of w st] False show ?thesis by simp
  qed
qed

lemma changed_id:
  assumes valid: "fst (emailconfirm e w st i sign) \<noteq> HttpResponseForbidden" and ji: "j \<noteq> i"
    and hi: "is_hexdigest (get_sha256 e (SECRET_KEY e @ str_of_nat i @ SECRET_KEY e))"
    and hj: "is_hexdigest (get_sha256 e (SECRET_KEY e @ str_of_nat j @ SECRET_KEY e))"
    and nc: "no_collision e (SECRET_KEY e @ str_of_nat j @ SECRET_KEY e) (SECRET_KEY e @ str_of_nat i @ SECRET_KEY e)"
  shows "emailconfirm e w st j sign = (HttpResponseForbidden, w)"
proof -
  let ?di = "get_sha256 e (SECRET_KEY e @ str_of_nat i @ SECRET_KEY e)"
  let ?dj = "get_sha256 e (SECRET_KEY e @ str_of_nat j @ SECRET_KEY e)"
  from valid have up: "str_upper e sign = str_upper e ?di"
    unfolding emailconfirm_accepted by blast
  from ji have "str_of_nat j \<noteq> str_of_nat i" using str_of_nat_inj by blast
  then have "SECRET_KEY e @ str_of_nat j @ SECRET_KEY e \<noteq> SECRET_KEY e @ str_of_nat i @ SECRET_KEY e" by simp
  with nc have "?dj \<noteq> ?di" unfolding no_collision_def by blast
  moreover from hi hj have "list_all is_hex_char ?di" "list_all is_hex_char ?dj"
    unfolding is_hexdigest_def by blast+
  ultimately have "str_upper e ?dj \<noteq> str_upper e ?di"
    using str_upper_hex_inj[of ?dj ?di e] by blast
  with up have "str_upper e ?dj \<noteq> str_upper e sign" by simp
  from emailconfirm_forbidden[OF this] show ?thesis .
qed

text \<open>
  Claim C5: for every identity id and every signature, the confirmation link is accepted
  (the answer is not 403) exactly when the signature equals the digest
  \<open>get_sha256(SECRET_KEY + str(id) + SECRET_KEY)\<close> under the comparison without regard to
  case that the view makes, the equality of the two texts after \<open>str.upper\<close>; nothing
  else enters the decision, and a signature that does not match gives 403 and leaves the
  state as it was. The digest is a hexadecimal digest. The signatures of the evaluation
  are the digest of identity 1 in capitals, the same with the ligature \<open>U+FB00\<close> (in upper
  case \<open>FF\<close>) for its first two letters, a digest with another last digit, and the empty
  text.
\<close>

theorem emailconfirm_accepts_iff:
  "is_hexdigest (get_sha256 e (SECRET_KEY e @ str_of_nat i @ SECRET_KEY e)) \<Longrightarrow>
   ((fst (emailconfirm e w st i sign) \<noteq> HttpResponseForbidden)
      = (str_upper e sign = str_upper e (get_sha256 e (SECRET_KEY e @ str_of_nat i @ SECRET_KEY e))))
   \<and> (str_upper e sign \<noteq> str_upper e (get_sha256 e (SECRET_KEY e @ str_of_nat i @ SECRET_KEY e))
        \<longrightarrow> emailconfirm e w st i sign = (HttpResponseForbidden, w))"
proof -
  let ?d = "get_sha256 e (SECRET_KEY e @ str_of_nat i @ SECRET_KEY e)"
  assume hex: "is_hexdigest ?d"
  show ?thesis
  proof (cases "str_upper e sign = str_upper e ?d")
    case True
    with str_upper_hexdigest_not_Nil[OF hex, of e] have "sign \<noteq> []" by auto
    with True show ?thesis using emailconfirm_not_forbidden[of sign e i w st] by simp
  next
    case False
    then show ?thesis using emailconfirm_forbidden[of e i sign w st] by auto
  qed
qed

theorem emailconfirm_accepts_iff_witness:
  "is_hexdigest (get_sha256 sample_env (SECRET_KEY sample_env @ str_of_nat 1 @ SECRET_KEY sample_env))
   \<and> get_sha256 sample_env (SECRET_KEY sample_env @ str_of_nat 1 @ SECRET_KEY sample_env) = lit ''ff107511214910751121''
   \<and> fst (emailconfirm sample_env linked_world (lit ''260101093500'') 1 (lit ''FF107511214910751121'')) \<noteq> HttpResponseForbidden
   \<and> fst (emailconfirm sample_env linked_world (lit ''260101093500'') 1 (0xFB00 # lit ''107511214910751121'')) \<noteq> HttpResponseForbidden
   \<and> emailconfirm sample_env linked_world (lit ''260101093500'') 1 (lit ''ff107511214910751122'')
       = (HttpResponseForbidden, linked_world)
   \<and> emailconfirm sample_env linked_world (lit ''260101093500'') 1 [] = (HttpResponseForbidden, linked_world)"
proof -
  let ?d = "get_sha256 sample_env (SECRET_KEY sample_env @ str_of_nat 1 @ SECRET_KEY sample_env)"
  have hex: "is_hexdigest ?d" by code_simp
  have d: "?d = lit ''ff107511214910751121''" by code_simp
  have good: "str_upper sample_env (lit ''FF107511214910751121'') = str_upper sample_env ?d" by code_simp
  have lig: "str_upper sample_env (0xFB00 # lit ''107511214910751121'') = str_upper sample_env ?d" by code_simp
  have bad: "str_upper sample_env (lit ''ff107511214910751122'') \<noteq> str_upper sample_env ?d" by code_simp
  have none: "str_upper sample_env [] \<noteq> str_upper sample_env ?d" by code_simp
  from emailconfirm_accepts_iff[OF hex, of linked_world "lit ''260101093500''" "lit ''FF107511214910751121''"] good
  have a: "fst (emailconfirm sample_env linked_world (lit ''260101093500'') 1 (lit ''FF107511214910751121'')) \<noteq> HttpResponseForbidden"
    by blast
  from emailconfirm_accepts_iff[OF hex, of linked_world "lit ''260101093500''" "0xFB00 # lit ''107511214910751121''"] lig
  have l: "fst (emailconfirm sample_env linked_world (lit ''260101093500'') 1 (0xFB00 # lit ''107511214910751121'')) \<noteq> HttpResponseForbidden"
    by blast
  from emailconfirm_accepts_iff[OF hex, of linked_world "lit ''260101093500''" "lit ''ff107511214910751122''"] bad
  have b: "emailconfirm sample_env linked_world (lit ''260101093500'') 1 (lit ''ff107511214910751122'')
       = (HttpResponseForbidden, linked_world)"
    by blast
  from emailconfirm_accepts_iff[OF hex, of linked_world "lit ''260101093500''" "[]"] none
  have n: "emailconfirm sample_env linked_world (lit ''260101093500'') 1 [] = (HttpResponseForbidden, linked_world)"
    by blast
  from hex d a l b n show ?thesis by blast
qed

text \<open>
  Claim C6 says that changing one character of the id or of the signature of a valid
  link always makes verification reject. The comparison is made in upper case, so
  changing the case of a letter of the signature keeps the link valid: for identity 1
  the signature \<open>ff107511214910751121\<close> and the same with a capital \<open>F\<close> in second place
  are both accepted.
\<close>

theorem case_change_still_accepted:
  "(let w1 = snd (authorize sample_env empty_world (callback_request (lit ''weibo'')) (weibo_answers answer_token_new));
        w2 = snd (form_valid sample_env w1 (lit ''b@y.com'') (Some 1))
    in get_sha256 sample_env (SECRET_KEY sample_env @ str_of_nat 1 @ SECRET_KEY sample_env) = lit ''ff107511214910751121''
     \<and> fst (emailconfirm sample_env w2 (lit ''260101093500'') 1 (lit ''ff107511214910751121''))
          = HttpResponseRedirect (lit ''/oauth/bindsuccess/1.html?type=success'')
     \<and> fst (emailconfirm sample_env w2 (lit ''260101093500'') 1 (lit ''fF107511214910751121''))
          = HttpResponseRedirect (lit ''/oauth/bindsuccess/1.html?type=success''))"
  by code_simp

text \<open>
  Claim C6 as amended. For a valid link, replacing one character of the signature gives
  403 and no state change, unless the new character has the upper-case form of the one it
  replaces (a letter in its other case): then the link stays valid, with the same
  answer and the same effect. And the signature of one id gives 403 and no state change
  for every other id, when the digests of the two ids are hexadecimal digests and the
  digest function has no collision on the two texts hashed for them.
\<close>

theorem one_character_changes:
  assumes valid: "fst (emailconfirm e w st i sign) \<noteq> HttpResponseForbidden"
  shows "(k < length sign \<longrightarrow>
            (if upper_char e c = upper_char e (sign ! k)
             then emailconfirm e w st i (sign[k := c]) = emailconfirm e w st i sign
             else emailconfirm e w st i (sign[k := c]) = (HttpResponseForbidden, w)))
       \<and> (j \<noteq> i
           \<and> is_hexdigest (get_sha256 e (SECRET_KEY e @ str_of_nat i @ SECRET_KEY e))
           \<and> is_hexdigest (get_sha256 e (SECRET_KEY e @ str_of_nat j @ SECRET_KEY e))
           \<and> no_collision e (SECRET_KEY e @ str_of_nat j @ SECRET_KEY e) (SECRET_KEY e @ str_of_nat i @ SECRET_KEY e)
          \<longrightarrow> emailconfirm e w st j sign = (HttpResponseForbidden, w))"
  using changed_signature[OF valid, of k c] changed_id[OF valid, of j] by blast

theorem one_character_changes_witness:
  "fst (emailconfirm sample_env linked_world (lit ''260101093500'') 1 (lit ''ff107511214910751121'')) \<noteq> HttpResponseForbidden
   \<and> emailconfirm sample_env linked_world (lit ''260101093500'') 1 ((lit ''ff107511214910751121'')[0 := cp CHR ''F''])
       = emailconfirm sample_env linked_world (lit ''260101093500'') 1 (lit ''ff107511214910751121'')
   \<and> emailconfirm sample_env linked_world (lit ''260101093500'') 1 ((lit ''ff107511214910751121'')[0 := cp CHR ''e''])
       = (HttpResponseForbidden, linked_world)
   \<and> emailconfirm sample_env linked_world (lit ''260101093500'') 2 (lit ''ff107511214910751121'')
       = (HttpResponseForbidden, linked_world)"
proof -
  let ?s = "lit ''ff107511214910751121''"
  let ?K = "SECRET_KEY sample_env"
  have valid: "fst (emailconfirm sample_env linked_world (lit ''260101093500'') 1 ?s) \<noteq> HttpResponseForbidden"
    by code_simp
  have pos: "0 < length ?s" by code_simp
  have same: "upper_char sample_env (cp CHR ''F'') = upper_char sample_env (?s ! 0)" by code_simp
  have other: "upper_char sample_env (cp CHR ''e'') \<noteq> upper_char sample_env (?s ! 0)" by code_simp
  have ids: "(2::nat) \<noteq> 1" by simp
  have hex1: "is_hexdigest (get_sha256 sample_env (?K @ str_of_nat 1 @ ?K))" by code_simp
  have hex2: "is_hexdigest (get_sha256 sample_env (?K @ str_of_nat 2 @ ?K))" by code_simp
  have nc: "no_collision sample_env (?K @ str_of_nat 2 @ ?K) (?K @ str_of_nat 1 @ ?K)" by code_simp
  from one_character_changes[OF valid, of 0 "cp CHR ''F''" 2] pos same
  have a: "emailconfirm sample_env linked_world (lit ''260101093500'') 1 (?s[0 := cp CHR ''F''])
       = emailconfirm sample_env linked_world (lit ''260101093500'') 1 ?s" by simp
  from one_character_changes[OF valid, of 0 "cp CHR ''e''" 2] pos other
  have b: "emailconfirm sample_env linked_world (lit ''260101093500'') 1 (?s[0 := cp CHR ''e''])
       = (HttpResponseForbidden, linked_world)" by simp
  from one_character_changes[OF valid, of 0 "cp CHR ''e''" 2] ids hex1 hex2 nc
  have c: "emailconfirm sample_env linked_world (lit ''260101093500'') 2 ?s = (HttpResponseForbidden, linked_world)"
    by blast
  from valid a b c show ?thesis by blast
qed

text \<open>
  The digest function is a parameter, and the condition on it cannot be dropped: with a
  digest that ignores its input, the link of one id is accepted for every id.
\<close>

lemma colliding_digest_accepts_other_id:
  assumes "get_sha256 e = (\<lambda>s. d)" and "fst (emailconfirm e w st i sign) \<noteq> HttpResponseForbidden"
  shows "fst (emailconfirm e w st j sign) \<noteq> HttpResponseForbidden"
  using assms by (simp add: emailconfirm_accepted)

subsection \<open>The email form\<close>

lemma quote_char_hex: "is_hex_char c \<Longrightarrow> quote_char safe c = [c]"
  by (auto simp: is_hex_char_def quote_char_def always_safe_def)

lemma quote_hex: "list_all is_hex_char s \<Longrightarrow> quote safe s = s"
  by (induction s) (simp_all add: quote_def quote_char_hex)

lemma hex_no_slash: "list_all is_hex_char s \<Longrightarrow> cp CHR ''/'' \<notin> set s"
  by (induction s) (auto simp: is_hex_char_def)

text \<open>
  Claim C10: the email form has no precondition but the existence of the row. For every
  stored identity and every address the form accepts, \<open>form_valid\<close> overwrites the stored
  email with the address and queues a mail to it with the confirmation link of the
  identity: the link carries the digest \<open>get_sha256(SECRET_KEY + str(id) + SECRET_KEY)\<close>
  as its signature, which \<open>emailconfirm\<close> accepts for that id. Whether the identity
  already has an email, is already linked, or whose session sends the form plays no
  part: the witness is an identity that is linked and has an email. The digest is a
  hexadecimal digest.
\<close>

theorem form_valid_overwrites_and_mails:
  assumes "oauth_users w i = Some r" and "stored_row i r"
    and "is_hexdigest (get_sha256 e (SECRET_KEY e @ str_of_nat i @ SECRET_KEY e))"
  shows "form_valid e w addr (Some (int i)) =
     (HttpResponseRedirect (lit ''/oauth/bindsuccess/'' @ str_of_nat i @ lit ''.html?type=email''),
      w\<lparr>oauth_users := (oauth_users w)(i \<mapsto> r\<lparr>email := JStr addr\<rparr>),
        outbox := outbox w @
          [\<lparr>emailto = [JStr addr], title = lit ''Bind your email'',
            link = lit ''http://'' @ (if DEBUG e then lit ''127.0.0.1:8000'' else site_domain e)
                   @ lit ''/oauth/emailconfirm/'' @ str_of_nat i @ lit ''/''
                   @ get_sha256 e (SECRET_KEY e @ str_of_nat i @ SECRET_KEY e) @ lit ''.html''\<rparr>]\<rparr>)
   \<and> fst (emailconfirm e (snd (form_valid e w addr (Some (int i)))) st i
              (get_sha256 e (SECRET_KEY e @ str_of_nat i @ SECRET_KEY e))) \<noteq> HttpResponseForbidden"
proof -
  let ?d = "get_sha256 e (SECRET_KEY e @ str_of_nat i @ SECRET_KEY e)"
  from assms(3) have ne: "?d \<noteq> []" and hex: "list_all is_hex_char ?d" by (simp_all add: is_hexdigest_def)
  have "fst (emailconfirm e (snd (form_valid e w addr (Some (int i)))) st i ?d) \<noteq> HttpResponseForbidden"
    using ne by (simp add: emailconfirm_accepted)
  moreover have "form_valid e w addr (Some (int i)) =
     (HttpResponseRedirect (lit ''/oauth/bindsuccess/'' @ str_of_nat i @ lit ''.html?type=email''),
      w\<lparr>oauth_users := (oauth_users w)(i \<mapsto> r\<lparr>email := JStr addr\<rparr>),
        outbox := outbox w @
          [\<lparr>emailto = [JStr addr], title = lit ''Bind your email'',
            link = lit ''http://'' @ (if DEBUG e then lit ''127.0.0.1:8000'' else site_domain e)
                   @ lit ''/oauth/emailconfirm/'' @ str_of_nat i @ lit ''/'' @ ?d @ lit ''.html''\<rparr>]\<rparr>)"
    using assms(1,2) ne hex_no_slash[OF hex] quote_hex[OF hex]
    by (simp add: form_valid_def OAuthUser_by_pk_def OAuthUser_save_stored Let_def)
  ultimately show ?thesis by blast
qed

theorem form_valid_overwrites_and_mails_witness:
  "oauth_users linked_world 1 = Some linked_row \<and> author_id linked_row = Some 1
   \<and> email linked_row = JStr (lit ''a@x.com'')
   \<and> form_valid sample_env linked_world (lit ''b@y.com'') (Some (int 1)) =
     (HttpResponseRedirect (lit ''/oauth/bindsuccess/1.html?type=email''),
      linked_world\<lparr>oauth_users := (oauth_users linked_world)(1 \<mapsto> linked_row\<lparr>email := JStr (lit ''b@y.com'')\<rparr>),
        outbox := outbox linked_world @
          [\<lparr>emailto = [JStr (lit ''b@y.com'')], title = lit ''Bind your email'',
            link = lit ''http://example.com/oauth/emailconfirm/1/ff107511214910751121.html''\<rparr>]\<rparr>)
   \<and> fst (emailconfirm sample_env (snd (form_valid sample_env linked_world (lit ''b@y.com'') (Some (int 1))))
              (lit ''260101093500'') 1 (lit ''ff107511214910751121'')) \<noteq> HttpResponseForbidden"
proof -
  let ?d = "get_sha256 sample_env (SECRET_KEY sample_env @ str_of_nat 1 @ SECRET_KEY sample_env)"
  have row: "oauth_users linked_world 1 = Some linked_row" by code_simp
  have stored: "stored_row 1 linked_row" by code_simp
  have hex: "is_hexdigest ?d" by code_simp
  have linked: "author_id linked_row = Some 1" by code_simp
  have mail: "email linked_row = JStr (lit ''a@x.com'')" by code_simp
  have d: "?d = lit ''ff107511214910751121''" by code_simp
  have target: "lit ''/oauth/bindsuccess/'' @ str_of_nat 1 @ lit ''.html?type=email'' = lit ''/oauth/bindsuccess/1.html?type=email''"
    by code_simp
  have url: "lit ''http://'' @ (if DEBUG sample_env then lit ''127.0.0.1:8000'' else site_domain sample_env)
                   @ lit ''/oauth/emailconfirm/'' @ str_of_nat 1 @ lit ''/'' @ lit ''ff107511214910751121'' @ lit ''.html''
             = lit ''http://example.com/oauth/emailconfirm/1/ff107511214910751121.html''"
    by code_simp
  from form_valid_overwrites_and_mails[OF row stored hex, of "lit ''b@y.com''" "lit ''260101093500''"]
  show ?thesis unfolding d target url using row linked mail by blast
qed

subsection \<open>Refreshing a stored identity\<close>

lemma fix_nickname_value:
  "fix_nickname st u0 = Inr u \<Longrightarrow>
     nickname u = JStr (case nickname u0 of
                          JStr s \<Rightarrow> if str_strip s = [] then default_nickname st else s
                        | _ \<Rightarrow> default_nickname st)"
  by (cases "nickname u0") (auto simp: fix_nickname_def str_strip_def split: if_splits)

text \<open>
  Claim C8 says that a callback which finds a stored identity refreshes display name,
  avatar, raw profile and access token. The token is not among the fields the view
  copies: after a first Weibo callback with the token \<open>old\<close> and a second one for the
  same user with the token \<open>new\<close>, the only stored row still holds \<open>old\<close>.
\<close>

theorem stale_token_kept:
  "(let w1 = snd (authorize sample_env empty_world (callback_request (lit ''weibo'')) (weibo_answers answer_token_old));
        w2 = snd (authorize sample_env w1 (callback_request (lit ''weibo'')) (weibo_answers answer_token_new))
    in map_option token (oauth_users w1 1) = Some (JStr (lit ''old''))
     \<and> (case get_access_token_by_code sample_env (new_manager w1 WBOauthManager) (weibo_answers answer_token_new) of
           (Inr (RUser u), m, h) \<Rightarrow> openid u = JStr (lit ''42'') \<and> token u = JStr (lit ''new'')
         | _ \<Rightarrow> False)
     \<and> map_option (\<lambda>r. (type r, openid r, token r)) (oauth_users w2 1) = Some (lit ''weibo'', JStr (lit ''42''), JStr (lit ''old''))
     \<and> next_oauth_id w2 = 2)"
  by code_simp

text \<open>
  Claim C8 as amended: when a callback finds a stored identity for the request's type
  and the fetched external id and ends in a redirect, the stored row holds the fetched
  picture and metadata and the fetched nickname, or the generated name in place of a
  nickname that is empty or blank (nothing but characters that \<open>str.strip\<close> removes);
  its token is not refreshed: it keeps the stored value, except for the type
  \<open>facebook\<close>, where it is set to the empty string. When an exception leaves the view,
  also \<open>DisallowedRedirect\<close> from the redirect to \<open>next_url\<close>, nothing in the tables is
  changed. In the evaluation the stored nickname, picture and metadata differ from the
  fetched ones and the fetched nickname is an ideographic space.
\<close>

theorem existing_row_refresh:
  assumes found: "OAuthUser_get e w ty (openid u0) = Inr (Some temp)"
    and stored: "stored_row i temp"
    and run: "authorize_user e w ty nexturl st u0 = (resp, w')"
  shows "(case resp of
            Raised ex \<Rightarrow> w' = w\<lparr>session := session w'\<rparr>
          | _ \<Rightarrow> (\<exists>row. oauth_users w' i = Some row
                    \<and> nickname row = JStr (case nickname u0 of
                                              JStr s \<Rightarrow> if str_strip s = [] then default_nickname st else s
                                            | _ \<Rightarrow> default_nickname st)
                    \<and> picture row = to_python e (picture u0)
                    \<and> metadata row = to_python e (metadata u0)
                    \<and> token row = (if ty = lit ''facebook'' then JStr [] else token temp)))"
proof (cases "fix_nickname st u0")
  case (Inl ex)
  with run show ?thesis by (auto simp: authorize_user_def and_then_def)
next
  case (Inr u)
  note f = fix_nickname_fields[OF Inr]
  note v = fix_nickname_value[OF Inr]
  define name where "name = (case nickname u0 of
       JStr s \<Rightarrow> if str_strip s = [] then default_nickname st else s | _ \<Rightarrow> default_nickname st)"
  define user1 where "user1 = temp\<lparr>picture := picture u, metadata := metadata u, nickname := nickname u\<rparr>"
  define user where "user = (if ty = lit ''facebook'' then user1\<lparr>token := JStr []\<rparr> else user1)"
  from stored have k: "pk temp = Some i" and t: "is_text (token temp)" by (simp_all add: stored_row_def)
  have pk_user: "pk user = Some i" and pic: "picture user = picture u0" and md: "metadata user = metadata u0"
    and nick: "nickname user = JStr name"
    using k f v by (simp_all add: user_def user1_def name_def)
  have nick': "to_python e (nickname user) = JStr name" by (simp add: nick to_python_def)
  have "token user1 = token temp" by (simp add: user1_def)
  then have tok: "to_python e (token user) = (if ty = lit ''facebook'' then JStr [] else token temp)"
    using to_python_text[OF t, of e] by (cases "ty = lit ''facebook''") (simp_all add: user_def to_python_def)
  have ex: "and_then (fix_nickname st u0) (existing_or_fetched e w ty) = Inr user1"
    using Inr found f by (simp add: and_then_def existing_or_fetched_def user1_def)
  show ?thesis
  proof (cases "py_truthy (email user)")
    case True
    show ?thesis
    proof (cases "link_by_email e w st user")
      case (Inl ex')
      with run ex True show ?thesis by (auto simp: authorize_user_def Let_def user_def)
    next
      case link: (Inr aw)
      obtain a w1 where aw: "aw = (a, w1)" by (cases aw) auto
      show ?thesis
      proof (cases "redirect_to e nexturl")
        case (Inl ex')
        with run ex True link aw have "resp = Raised ex'" and "w' = w\<lparr>session := Some a\<rparr>"
          by (simp_all add: authorize_user_def Let_def user_def)
        then show ?thesis by simp
      next
        case (Inr r)
        then have r: "r = HttpResponseRedirect nexturl"
          by (auto simp: redirect_to_def split: option.splits if_splits)
        with run ex True link aw Inr have rr: "resp = HttpResponseRedirect nexturl" and w: "w' = w1"
          by (simp_all add: authorize_user_def Let_def user_def)
        from link_by_email_saves[OF link[unfolded aw]] obtain w0 j w2
          where s: "OAuthUser_save e (user\<lparr>author_id := Some a\<rparr>) w0 = Inr (j, w2)" and w1: "w1 = w2\<lparr>session := Some a\<rparr>"
          by blast
        from OAuthUser_save_row[OF s, of i] pk_user obtain row where
          "oauth_users w2 i = Some row" "picture row = to_python e (picture user)"
          "metadata row = to_python e (metadata user)" "nickname row = to_python e (nickname user)"
          "token row = to_python e (token user)"
          by auto
        with rr w w1 pic md nick' tok show ?thesis by (simp add: name_def)
      qed
    qed
  next
    case False
    show ?thesis
    proof (cases "OAuthUser_save e user w")
      case (Inl ex')
      with run ex False show ?thesis by (auto simp: authorize_user_def Let_def user_def)
    next
      case (Inr jw)
      obtain j w1 where jw: "jw = (j, w1)" by (cases jw) auto
      with run ex False Inr have r: "resp = HttpResponseRedirect (lit ''/oauth/requireemail/'' @ str_of_nat j @ lit ''.html'')"
        and w: "w' = w1"
        by (simp_all add: authorize_user_def Let_def user_def)
      from OAuthUser_save_row[OF Inr[unfolded jw], of i] pk_user obtain row where
        "oauth_users w1 i = Some row" "picture row = to_python e (picture user)"
        "metadata row = to_python e (metadata user)" "nickname row = to_python e (nickname user)"
        "token row = to_python e (token user)"
        by auto
      with r w pic md nick' tok show ?thesis by (simp add: name_def)
    qed
  qed
qed

theorem existing_row_refresh_witness:
  "nickname linked_row = JStr (lit ''robert'') \<and> picture linked_row = JStr (lit ''http://img/a.png'')
   \<and> metadata linked_row = JNull \<and> token linked_row = JStr (lit ''old'')
   \<and> token fetched_weibo_user = JStr (lit ''new'')
   \<and> (\<exists>row. oauth_users (snd (authorize_user sample_env linked_world (lit ''weibo'') (lit ''/'') (lit ''260101093000'')
                                 (fetched_weibo_user\<lparr>nickname := JStr [0x3000]\<rparr>))) 1 = Some row
          \<and> nickname row = JStr (lit ''djangoblog260101093000'')
          \<and> picture row = JStr (lit ''http://img/b.png'')
          \<and> metadata row = JStr answer_profile_no_email
          \<and> token row = JStr (lit ''old''))"
proof -
  let ?u = "fetched_weibo_user\<lparr>nickname := JStr [0x3000]\<rparr>"
  let ?run = "authorize_user sample_env linked_world (lit ''weibo'') (lit ''/'') (lit ''260101093000'') ?u"
  have found: "OAuthUser_get sample_env linked_world (lit ''weibo'') (openid ?u) = Inr (Some linked_row)"
    by code_simp
  have stored: "stored_row 1 linked_row" by code_simp
  have run: "?run = (fst ?run, snd ?run)" by simp
  have resp: "fst ?run = HttpResponseRedirect (lit ''/'')" by code_simp
  have name: "(case nickname ?u of
                 JStr s \<Rightarrow> if str_strip s = [] then default_nickname (lit ''260101093000'') else s
               | _ \<Rightarrow> default_nickname (lit ''260101093000'')) = lit ''djangoblog260101093000''" by code_simp
  have pic: "to_python sample_env (picture ?u) = JStr (lit ''http://img/b.png'')" by code_simp
  have md: "to_python sample_env (metadata ?u) = JStr answer_profile_no_email" by code_simp
  have old: "(if lit ''weibo'' = lit ''facebook'' then JStr [] else token linked_row) = JStr (lit ''old'')" by code_simp
  have before: "nickname linked_row = JStr (lit ''robert'')" "picture linked_row = JStr (lit ''http://img/a.png'')"
    "metadata linked_row = JNull" "token linked_row = JStr (lit ''old'')" "token fetched_weibo_user = JStr (lit ''new'')"
    by code_simp+
  from existing_row_refresh[OF found stored run] resp
  have "\<exists>row. oauth_users (snd ?run) 1 = Some row
          \<and> nickname row = JStr (case nickname ?u of
                 JStr s \<Rightarrow> if str_strip s = [] then default_nickname (lit ''260101093000'') else s
               | _ \<Rightarrow> default_nickname (lit ''260101093000''))
          \<and> picture row = to_python sample_env (picture ?u)
          \<and> metadata row = to_python sample_env (metadata ?u)
          \<and> token row = (if lit ''weibo'' = lit ''facebook'' then JStr [] else token linked_row)"
    by simp
  then show ?thesis unfolding name pic md old using before by blast
qed

text \<open>
  A callback for the linked identity \<open>linked_row\<close> with \<open>next_url=javascript:alert(1)\<close>:
  the redirect is refused inside the transaction and the row stays as it was.
\<close>

lemma disallowed_redirect_rolls_back:
  "(let (resp, w') = authorize_user sample_env linked_world (lit ''weibo'') (lit ''javascript:alert(1)'')
                       (lit ''260101093000'') fetched_weibo_user
    in resp = Raised DisallowedRedirect \<and> oauth_users w' 1 = Some linked_row \<and> session w' = Some 1)"
  by code_simp

lemma blank_nicknames:
  "str_strip [0x3000] = [] \<and> str_strip [0xA0, 0x85] = [] \<and> str_strip (lit '' bob '') = lit ''bob''"
  by code_simp

subsection \<open>The avatar of a stored profile\<close>

text \<open>
  An instance of one of the three classes with the proxy mixin has no token attribute
  before the token exchange: fetching the profile with it raises \<open>AttributeError\<close>.
\<close>

lemma fresh_proxy_adapter_has_no_token:
  assumes "k = GoogleOauthManager \<or> k = GitHubOauthManager \<or> k = FaceBookOauthManager"
  shows "get_oauth_userinfo e (new_manager w k) h = (Inl AttributeError, new_manager w k, h)"
  using assms
  by (auto simp: get_oauth_userinfo_def new_manager_def initial_attr_def Google_get_oauth_userinfo_def
      GitHub_get_oauth_userinfo_def FaceBook_get_oauth_userinfo_def is_authorized_def is_access_token_set_def
      getattr_def and_then_def split: option.splits)

text \<open>
  Claim C9 says that, whenever the payload has the avatar field, \<open>get_picture\<close> on the
  stored metadata returns the avatar that \<open>get_oauth_userinfo\<close> put in the profile. The
  Facebook adapter sets the avatar only when the URL is present and not empty, while
  its \<open>get_picture\<close> has no such guard: after the token exchange, for a payload whose
  \<open>picture.data.url\<close> is the empty string the profile has no avatar (\<open>None\<close>) and
  \<open>get_picture\<close> returns the empty string.
\<close>

theorem facebook_empty_url_mismatch:
  "(case get_access_token_by_code sample_env (new_manager empty_world FaceBookOauthManager)
           [Some answer_facebook_token, Some answer_facebook_empty_url] of
      (Inr (RStr t), m1, h1) \<Rightarrow>
        t = lit ''fbtok'' \<and> h1 = [Some answer_facebook_empty_url]
        \<and> (case get_oauth_userinfo sample_env m1 h1 of
              (Inr (Some u), m2, h2) \<Rightarrow>
                 metadata u = JStr answer_facebook_empty_url \<and> picture u = JNull
                 \<and> get_picture sample_env FaceBookOauthManager answer_facebook_empty_url = Inr (JStr [])
                 \<and> get_picture sample_env FaceBookOauthManager answer_facebook_empty_url \<noteq> Inr (picture u)
            | _ \<Rightarrow> False)
    | _ \<Rightarrow> False)"
  by code_simp

text \<open>
  Claim C9 as amended: for every adapter and every successfully fetched profile,
  \<open>get_picture\<close> on the profile's metadata returns exactly the profile's avatar,
  provided, for Facebook and QQ, that the profile has an avatar (for QQ: the payload has
  the key \<open>figureurl\<close>; for Facebook: \<open>picture.data.url\<close> is present and not empty).
\<close>

theorem get_picture_round_trip:
  assumes "get_oauth_userinfo e m h = (Inr (Some u), m', h')"
    and "kind m = FaceBookOauthManager \<or> kind m = QQOauthManager \<longrightarrow> picture u \<noteq> JNull"
  shows "\<exists>md. metadata u = JStr md \<and> get_picture e (kind m) md = Inr (picture u)"
proof (cases "kind m")
  case WBOauthManager
  with assms(1) have "WB_get_oauth_userinfo e m h = (Inr (Some u), m', h')"
    by (simp add: get_oauth_userinfo_def)
  then obtain tok rsp where "WB_user e tok rsp = Inr u" using WB_userinfo_Some by blast
  then have "metadata u = JStr rsp \<and> WB_get_picture e rsp = Inr (picture u)" by (rule WB_user_picture)
  with WBOauthManager show ?thesis by (simp add: get_picture_def)
next
  case GoogleOauthManager
  with assms(1) have "Google_get_oauth_userinfo e m h = (Inr (Some u), m', h')"
    by (simp add: get_oauth_userinfo_def)
  then obtain tok rsp where "Google_user e tok rsp = Inr u" using Google_userinfo_Some by blast
  then have "metadata u = JStr rsp \<and> Google_get_picture e rsp = Inr (picture u)" by (rule Google_user_picture)
  with GoogleOauthManager show ?thesis by (simp add: get_picture_def)
next
  case GitHubOauthManager
  with assms(1) have "GitHub_get_oauth_userinfo e m h = (Inr (Some u), m', h')"
    by (simp add: get_oauth_userinfo_def)
  then obtain tok rsp where "GitHub_user e tok rsp = Inr u" using GitHub_userinfo_Some by blast
  then have "metadata u = JStr rsp \<and> GitHub_get_picture e rsp = Inr (picture u)" by (rule GitHub_user_picture)
  with GitHubOauthManager show ?thesis by (simp add: get_picture_def)
next
  case FaceBookOauthManager
  with assms(1) have "FaceBook_get_oauth_userinfo e m h = (Inr (Some u), m', h')"
    by (simp add: get_oauth_userinfo_def)
  then obtain tok rsp where "FaceBook_user e tok rsp = Inr u" using FaceBook_userinfo_Some by blast
  moreover from FaceBookOauthManager assms(2) have "picture u \<noteq> JNull" by simp
  ultimately have "metadata u = JStr rsp \<and> FaceBook_get_picture e rsp = Inr (picture u)"
    by (rule FaceBook_user_picture)
  with FaceBookOauthManager show ?thesis by (simp add: get_picture_def)
next
  case QQOauthManager
  with assms(1) have "QQ_get_oauth_userinfo e m h = (Inr (Some u), m', h')"
    by (simp add: get_oauth_userinfo_def)
  then obtain tok oid rsp where "QQ_user e tok oid rsp = Inr u" using QQ_userinfo_Some by blast
  moreover from QQOauthManager assms(2) have "picture u \<noteq> JNull" by simp
  ultimately have "metadata u = JStr rsp \<and> QQ_get_picture e rsp = Inr (picture u)"
    by (rule QQ_user_picture)
  with QQOauthManager show ?thesis by (simp add: get_picture_def)
qed

theorem get_picture_round_trip_witness:
  "(\<exists>m1. get_access_token_by_code sample_env (new_manager empty_world FaceBookOauthManager)
            [Some answer_facebook_token, Some answer_facebook_profile]
          = (Inr (RStr (lit ''fbtok'')), m1, [Some answer_facebook_profile])
        \<and> get_oauth_userinfo sample_env m1 [Some answer_facebook_profile] = (Inr (Some fetched_facebook_user), m1, []))
   \<and> picture fetched_facebook_user = JStr (lit ''http://img/e.png'')
   \<and> (\<exists>md. metadata fetched_facebook_user = JStr md
          \<and> get_picture sample_env FaceBookOauthManager md = Inr (picture fetched_facebook_user))"
proof -
  let ?m = "new_manager empty_world FaceBookOauthManager"
  let ?m1 = "?m\<lparr>access_token := Bound (Some (lit ''fbtok''))\<rparr>"
  have tok: "get_access_token_by_code sample_env ?m [Some answer_facebook_token, Some answer_facebook_profile]
          = (Inr (RStr (lit ''fbtok'')), ?m1, [Some answer_facebook_profile])" by code_simp
  have run: "get_oauth_userinfo sample_env ?m1 [Some answer_facebook_profile]
     = (Inr (Some fetched_facebook_user), ?m1, [])" by code_simp
  have k: "kind ?m1 = FaceBookOauthManager" by code_simp
  have pic: "picture fetched_facebook_user = JStr (lit ''http://img/e.png'')" by code_simp
  then have hyp: "kind ?m1 = FaceBookOauthManager \<or> kind ?m1 = QQOauthManager \<longrightarrow> picture fetched_facebook_user \<noteq> JNull"
    by simp
  from get_picture_round_trip[OF run hyp] k
  have "\<exists>md. metadata fetched_facebook_user = JStr md
          \<and> get_picture sample_env FaceBookOauthManager md = Inr (picture fetched_facebook_user)" by simp
  with tok run pic show ?thesis by blast
qed

end
